theory Spec2Isabelle
  imports Main "HOL-Library.Word" "HOL-Library.AList"
begin

section \<open>Go values, errors and strings\<close>

text \<open>
  The provider is Go code over the Azure SDK and the Terraform plugin framework. The
  embedding keeps the control flow of every function it translates: an \<open>error\<close>
  return is a value, a run-time panic (nil pointer dereference, failed type assertion,
  index out of range) is the outcome \<open>GoPanic\<close>, a pointer is an \<open>option\<close>.
  Go's \<open>int\<close> is taken at its 64-bit width (the amd64 and arm64 targets); \<open>int32\<close>
  and \<open>int64\<close> are words of their width; a \<open>float64\<close> is carried as its 64 bits
  (the code never computes with it). Log output is left out: it changes no state.
\<close>

type_synonym float64 = "64 word"

text \<open>
  Values of type \<open>interface{}\<close> as they occur in the configuration field bag and in
  the nested blocks: \<open>VList\<close> is \<open>[]interface{}\<close> (and the typed slices handed to
  \<open>d.Set\<close>), \<open>VMap\<close> is \<open>map[string]interface{}\<close> as an association list (the
  order of the list stands for the iteration order of the Go map), \<open>VSet\<close> is a
  \<open>*schema.Set\<close> given by the list its \<open>List()\<close> returns.
\<close>

datatype val =
    VNil
  | VString string
  | VInt "64 word"
  | VInt32 "32 word"
  | VInt64 "64 word"
  | VBool bool
  | VFloat float64
  | VList "val list"
  | VSet "val list"
  | VMap "(string \<times> val) list"

text \<open>
  Errors. \<open>LibError\<close> is an error value made outside this repository (SDK, plugin
  framework, standard library), known by its message only. \<open>Errorf\<close> is
  \<open>fmt.Errorf\<close>: the format string of the source, its string arguments in order
  and the error it wraps, if any. \<open>ImportAsExistsError\<close> is
  \<open>tf.ImportAsExistsError(resourceName, id)\<close>, the import-conflict error.
\<close>

datatype error =
    LibError string
  | Errorf string "string list" "error option"
  | ImportAsExistsError string string

datatype outcome = ReturnNil | ReturnErr error | GoPanic string

definition nilDeref :: string where
  "nilDeref = ''invalid memory address or nil pointer dereference''"

definition badAssert :: string where
  "badAssert = ''interface conversion''"

definition indexRange :: string where
  "indexRange = ''index out of range''"

subsection \<open>The functions of package \<open>strings\<close> the code calls\<close>

definition HasPrefix :: "string \<Rightarrow> string \<Rightarrow> bool" where
  "HasPrefix s pre = (take (length pre) s = pre)"

definition HasSuffix :: "string \<Rightarrow> string \<Rightarrow> bool" where
  "HasSuffix s suf = (length suf \<le> length s \<and> drop (length s - length suf) s = suf)"

definition TrimPrefix :: "string \<Rightarrow> string \<Rightarrow> string" where
  "TrimPrefix s pre = (if HasPrefix s pre then drop (length pre) s else s)"

definition TrimSuffix :: "string \<Rightarrow> string \<Rightarrow> string" where
  "TrimSuffix s suf = (if HasSuffix s suf then take (length s - length suf) s else s)"

fun Contains :: "string \<Rightarrow> string \<Rightarrow> bool" where
  "Contains [] sub = (sub = [])"
| "Contains (c # cs) sub = (HasPrefix (c # cs) sub \<or> Contains cs sub)"

text \<open>
  \<open>strings.Split(s, sep)\<close> for a non-empty separator: the pieces of \<open>s\<close> between
  the occurrences of \<open>sep\<close>, found from the left without overlap; one piece more than
  there are occurrences. With the empty separator Go splits after each character.
\<close>

function splitPieces :: "string \<Rightarrow> string \<Rightarrow> string list" where
  "splitPieces sep [] = [[]]"
| "splitPieces sep (c # cs) =
     (if sep \<noteq> [] \<and> HasPrefix (c # cs) sep
      then [] # splitPieces sep (drop (length sep) (c # cs))
      else (case splitPieces sep cs of
              [] \<Rightarrow> [[c]]
            | piece # pieces \<Rightarrow> (c # piece) # pieces))"
  by pat_completeness auto
termination
  by (relation "measure (\<lambda>(sep, s). length s)") (auto simp: neq_Nil_conv)

definition Split :: "string \<Rightarrow> string \<Rightarrow> string list" where
  "Split s sep = (if sep = [] then map (\<lambda>c. [c]) s else splitPieces sep s)"

text \<open>
  \<open>strings.Replace(s, old, new, -1)\<close>: every occurrence of \<open>old\<close>, from the left
  without overlap; with the empty \<open>old\<close>, \<open>new\<close> goes before every character and
  at the end.
\<close>

function replacePieces :: "string \<Rightarrow> string \<Rightarrow> string \<Rightarrow> string" where
  "replacePieces old new [] = []"
| "replacePieces old new (c # cs) =
     (if old \<noteq> [] \<and> HasPrefix (c # cs) old
      then new @ replacePieces old new (drop (length old) (c # cs))
      else c # replacePieces old new cs)"
  by pat_completeness auto
termination
  by (relation "measure (\<lambda>(old, new, s). length s)") (auto simp: neq_Nil_conv)

definition ReplaceAll :: "string \<Rightarrow> string \<Rightarrow> string \<Rightarrow> string" where
  "ReplaceAll s old new =
     (if old = [] then concat (map (\<lambda>c. new @ [c]) s) @ new else replacePieces old new s)"

text \<open>
  \<open>strings.EqualFold\<close> on the bytes of the two strings, folding the ASCII letters.
  Go folds by Unicode simple case folding; the only characters outside ASCII that fold
  to an ASCII letter are the Kelvin sign (to k) and the long s (to s), so the two agree
  whenever one argument has neither k nor s, as \<open>$type\<close> has.
\<close>

definition toLowerASCII :: "char \<Rightarrow> char" where
  "toLowerASCII c =
     (if (65::nat) \<le> of_char c \<and> of_char c \<le> (90::nat) then char_of (of_char c + (32::nat)) else c)"

definition EqualFold :: "string \<Rightarrow> string \<Rightarrow> bool" where
  "EqualFold s t = (map toLowerASCII s = map toLowerASCII t)"

section \<open>The plugin framework: resource data\<close>

text \<open>
  \<open>schema.ResourceData\<close>: the stored identifier, whether the resource is new, the
  field bag, and the framework's check of a value against the schema of a field
  (\<open>rd_setError k v\<close> is the error \<open>d.Set(k, v)\<close> returns, \<open>None\<close> when the value
  is accepted). The schema types every field, so \<open>d.Get(k).(string)\<close> on a string
  field cannot fail: the typed readers below return the field's value, or the zero
  value of the type when the field is unset.
\<close>

record ResourceData =
  rd_Id :: string
  rd_IsNewResource :: bool
  rd_fields :: "string \<Rightarrow> val option"
  rd_setError :: "string \<Rightarrow> val \<Rightarrow> error option"

definition dGet :: "ResourceData \<Rightarrow> string \<Rightarrow> val" where
  "dGet d k = (case rd_fields d k of None \<Rightarrow> VNil | Some v \<Rightarrow> v)"

definition getString :: "ResourceData \<Rightarrow> string \<Rightarrow> string" where
  "getString d k = (case dGet d k of VString s \<Rightarrow> s | _ \<Rightarrow> [])"

definition getInt :: "ResourceData \<Rightarrow> string \<Rightarrow> 64 word" where
  "getInt d k = (case dGet d k of VInt i \<Rightarrow> i | _ \<Rightarrow> 0)"

definition getBool :: "ResourceData \<Rightarrow> string \<Rightarrow> bool" where
  "getBool d k = (case dGet d k of VBool b \<Rightarrow> b | _ \<Rightarrow> False)"

definition getFloat :: "ResourceData \<Rightarrow> string \<Rightarrow> float64" where
  "getFloat d k = (case dGet d k of VFloat f \<Rightarrow> f | _ \<Rightarrow> 0)"

definition getList :: "ResourceData \<Rightarrow> string \<Rightarrow> val list" where
  "getList d k = (case dGet d k of VList xs \<Rightarrow> xs | _ \<Rightarrow> [])"

definition getSetList :: "ResourceData \<Rightarrow> string \<Rightarrow> val list" where
  "getSetList d k = (case dGet d k of VSet xs \<Rightarrow> xs | _ \<Rightarrow> [])"

definition getMap :: "ResourceData \<Rightarrow> string \<Rightarrow> (string \<times> val) list" where
  "getMap d k = (case dGet d k of VMap m \<Rightarrow> m | _ \<Rightarrow> [])"

fun isZero :: "val \<Rightarrow> bool" where
  "isZero VNil = True"
| "isZero (VString s) = (s = [])"
| "isZero (VInt i) = (i = 0)"
| "isZero (VInt32 i) = (i = 0)"
| "isZero (VInt64 i) = (i = 0)"
| "isZero (VBool b) = (\<not> b)"
| "isZero (VFloat f) = (f = 0)"
| "isZero (VList xs) = (xs = [])"
| "isZero (VSet xs) = (xs = [])"
| "isZero (VMap m) = (m = [])"

text \<open>\<open>d.GetOk(k)\<close>: the value, and whether it is set to a non-zero value.\<close>

definition dGetOk :: "ResourceData \<Rightarrow> string \<Rightarrow> val option" where
  "dGetOk d k =
     (case rd_fields d k of None \<Rightarrow> None | Some v \<Rightarrow> (if isZero v then None else Some v))"

text \<open>A pointer to a string handed to \<open>d.Set\<close>: nil stores the nil value.\<close>

definition ptrString :: "string option \<Rightarrow> val" where
  "ptrString p = (case p of None \<Rightarrow> VNil | Some s \<Rightarrow> VString s)"

definition ptrBool :: "bool option \<Rightarrow> val" where
  "ptrBool p = (case p of None \<Rightarrow> VNil | Some b \<Rightarrow> VBool b)"

definition ptrInt64 :: "64 word option \<Rightarrow> val" where
  "ptrInt64 p = (case p of None \<Rightarrow> VNil | Some i \<Rightarrow> VInt64 i)"

text \<open>
  \<open>schema.NewSet(hash, items)\<close>. The set orders its items by their hash and drops
  items of equal hash; the code builds sets of one nested block only, whose
  \<open>List()\<close> is that block, so the hash functions are not translated.
\<close>

definition NewSet :: "val list \<Rightarrow> val" where
  "NewSet items = VSet items"

section \<open>HTTP responses and the record of remote calls\<close>

record httpResponse =
  StatusCode :: int

text \<open>
  Modelled from the spec: \<open>utils.ResponseWasNotFound\<close> (on an
  \<open>autorest.Response\<close>, which embeds a \<open>*http.Response\<close>) and
  \<open>response.WasNotFound\<close> (on a \<open>*http.Response\<close>) are helpers of this
  repository that are not among the source files. The spec calls not-found "a remote
  404": the response is there and its status code is 404.
\<close>

definition ResponseWasNotFound :: "httpResponse option \<Rightarrow> bool" where
  "ResponseWasNotFound resp = (case resp of None \<Rightarrow> False | Some r \<Rightarrow> StatusCode r = 404)"

definition WasNotFound :: "httpResponse option \<Rightarrow> bool" where
  "WasNotFound resp = (case resp of None \<Rightarrow> False | Some r \<Rightarrow> StatusCode r = 404)"

text \<open>
  The remote API is a black box with a state of its own (type \<open>'w\<close>): a client
  method takes the state and returns its Go results and the next state. What a call
  returns is not constrained. Every call the code makes is written to a log, so that
  "issues a GET", "before any write" and "retries" are statements about the log:
  the kind of the call, the context it ran under, the strings that address the remote
  object, whether it returned an error, whether its response was a 404, and the
  identifier its result carries.
\<close>

datatype verb = GET | WRITE | DELETE | WAIT | LIST

datatype timeoutKey = TimeoutCreate | TimeoutUpdate | TimeoutDelete

datatype callCtx = StopContext | WithTimeout timeoutKey

record event =
  ev_verb :: verb
  ev_ctx :: callCtx
  ev_target :: "string list"
  ev_failed :: bool
  ev_notFound :: bool
  ev_id :: "string option"

record 'w state =
  rd :: ResourceData
  world :: 'w
  calls :: "event list"

definition invoke ::
  "verb \<Rightarrow> callCtx \<Rightarrow> string list \<Rightarrow> ('a \<Rightarrow> httpResponse option) \<Rightarrow> ('a \<Rightarrow> string option) \<Rightarrow>
   ('w \<Rightarrow> ('a \<times> error option) \<times> 'w) \<Rightarrow> 'w state \<Rightarrow> ('a \<times> error option) \<times> 'w state"
where
  "invoke v cx target respOf idOf f s =
     (case f (world s) of
        ((r, err), w') \<Rightarrow>
          ((r, err),
           s\<lparr>world := w',
             calls := calls s @
               [\<lparr>ev_verb = v, ev_ctx = cx, ev_target = target, ev_failed = (err \<noteq> None),
                 ev_notFound = ResponseWasNotFound (respOf r), ev_id = idOf r\<rparr>]\<rparr>))"

definition SetId :: "string \<Rightarrow> 'w state \<Rightarrow> 'w state" where
  "SetId i s = s\<lparr>rd := (rd s)\<lparr>rd_Id := i\<rparr>\<rparr>"

definition dSet :: "string \<Rightarrow> val \<Rightarrow> 'w state \<Rightarrow> 'w state \<times> error option" where
  "dSet k v s =
     (case rd_setError (rd s) k v of
        None \<Rightarrow> (s\<lparr>rd := (rd s)\<lparr>rd_fields := (rd_fields (rd s))(k \<mapsto> v)\<rparr>\<rparr>, None)
      | Some e \<Rightarrow> (s, Some e))"

text \<open>\<open>d.Set(k, v)\<close> where the source drops the error it returns.\<close>

definition dSet0 :: "string \<Rightarrow> val \<Rightarrow> 'w state \<Rightarrow> 'w state" where
  "dSet0 k v s = fst (dSet k v s)"

definition start :: "ResourceData \<Rightarrow> 'w \<Rightarrow> 'w state" where
  "start d w = \<lparr>rd = d, world = w, calls = []\<rparr>"

section \<open>The Azure SDK: result structs and client methods\<close>

text \<open>
  Each SDK struct is a record of the fields the provider reads or writes; a pointer
  field is an \<open>option\<close>. A result struct embeds \<open>autorest.Response\<close>, whose
  \<open>*http.Response\<close> is nil when no response arrived. A string enumeration of the
  SDK is its string. A tag map is \<open>map[string]*string\<close> (nil is \<open>None\<close>).
  A client method takes the context it is called under, its Go arguments and the remote
  state, and returns its Go results \<open>(result, err)\<close> with the next remote state.
\<close>

type_synonym tagMap = "(string \<times> string option) list option"

record future =
  fut_Response :: "httpResponse option"

subsection \<open>scheduler\<close>

record JobMaxRecurrence =
  jmr_Frequency :: string
  jmr_Interval :: "32 word option"

record JobCollectionQuota =
  jcq_MaxJobCount :: "32 word option"
  jcq_MaxRecurrence :: "JobMaxRecurrence option"

record Sku =
  sku_Name :: string

record JobCollectionProperties =
  jcp_Sku :: "Sku option"
  jcp_State :: string
  jcp_Quota :: "JobCollectionQuota option"

record JobCollectionDefinition =
  jc_Response :: "httpResponse option"
  jc_ID :: "string option"
  jc_Name :: "string option"
  jc_Location :: "string option"
  jc_Tags :: tagMap
  jc_Properties :: "JobCollectionProperties option"

record 'w jobCollectionsClient =
  jc_Get :: "callCtx \<Rightarrow> string \<Rightarrow> string \<Rightarrow> 'w \<Rightarrow> (JobCollectionDefinition \<times> error option) \<times> 'w"
  jc_CreateOrUpdate ::
    "callCtx \<Rightarrow> string \<Rightarrow> string \<Rightarrow> JobCollectionDefinition \<Rightarrow> 'w \<Rightarrow>
     (JobCollectionDefinition \<times> error option) \<times> 'w"
  jc_Delete :: "callCtx \<Rightarrow> string \<Rightarrow> string \<Rightarrow> 'w \<Rightarrow> (future \<times> error option) \<times> 'w"
  jc_WaitForCompletionRef :: "callCtx \<Rightarrow> future \<Rightarrow> 'w \<Rightarrow> (future \<times> error option) \<times> 'w"

subsection \<open>eventhub\<close>

record ConsumerGroupProperties =
  cgp_UserMetadata :: "string option"

record ConsumerGroup =
  cg_Response :: "httpResponse option"
  cg_ID :: "string option"
  cg_Name :: "string option"
  cg_ConsumerGroupProperties :: "ConsumerGroupProperties option"

record 'w consumerGroupsClient =
  cg_Get ::
    "callCtx \<Rightarrow> string \<Rightarrow> string \<Rightarrow> string \<Rightarrow> string \<Rightarrow> 'w \<Rightarrow> (ConsumerGroup \<times> error option) \<times> 'w"
  cg_CreateOrUpdate ::
    "callCtx \<Rightarrow> string \<Rightarrow> string \<Rightarrow> string \<Rightarrow> string \<Rightarrow> ConsumerGroup \<Rightarrow> 'w \<Rightarrow>
     (ConsumerGroup \<times> error option) \<times> 'w"
  cg_Delete ::
    "callCtx \<Rightarrow> string \<Rightarrow> string \<Rightarrow> string \<Rightarrow> string \<Rightarrow> 'w \<Rightarrow>
     (httpResponse option \<times> error option) \<times> 'w"

subsection \<open>trafficmanager\<close>

record DNSConfig =
  dc_RelativeName :: "string option"
  dc_Fqdn :: "string option"
  dc_TTL :: "64 word option"

record MonitorConfig =
  mc_Protocol :: string
  mc_Port :: "64 word option"
  mc_Path :: "string option"

record ProfileProperties =
  pp_ProfileStatus :: string
  pp_TrafficRoutingMethod :: string
  pp_DNSConfig :: "DNSConfig option"
  pp_MonitorConfig :: "MonitorConfig option"

record Profile =
  tm_Response :: "httpResponse option"
  tm_ID :: "string option"
  tm_Name :: "string option"
  tm_Location :: "string option"
  tm_Tags :: tagMap
  tm_ProfileProperties :: "ProfileProperties option"

record DeleteOperationResult =
  dor_Response :: "httpResponse option"

record 'w profilesClient =
  tm_Get :: "callCtx \<Rightarrow> string \<Rightarrow> string \<Rightarrow> 'w \<Rightarrow> (Profile \<times> error option) \<times> 'w"
  tm_CreateOrUpdate ::
    "callCtx \<Rightarrow> string \<Rightarrow> string \<Rightarrow> Profile \<Rightarrow> 'w \<Rightarrow> (Profile \<times> error option) \<times> 'w"
  tm_Delete ::
    "callCtx \<Rightarrow> string \<Rightarrow> string \<Rightarrow> 'w \<Rightarrow> (DeleteOperationResult \<times> error option) \<times> 'w"

subsection \<open>insights\<close>

text \<open>
  \<open>BasicRuleDataSource\<close>, \<open>BasicRuleCondition\<close> and \<open>BasicRuleAction\<close> are
  interfaces with several implementations; \<open>AsRuleMetricDataSource()\<close>,
  \<open>AsThresholdRuleCondition()\<close>, \<open>AsRuleEmailAction()\<close> and
  \<open>AsRuleWebhookAction()\<close> return a pointer and true for their own variant, nil and
  false for the others. The variants the provider does not look at are one constructor.
\<close>

record RuleMetricDataSource =
  mds_ResourceURI :: "string option"
  mds_MetricName :: "string option"

datatype RuleDataSource = MetricDataSource RuleMetricDataSource | OtherDataSource

record ThresholdRuleCondition =
  trc_DataSource :: "RuleDataSource option"
  trc_Operator :: string
  trc_Threshold :: "float64 option"
  trc_WindowSize :: "string option"
  trc_TimeAggregation :: string

datatype RuleCondition = ThresholdCondition ThresholdRuleCondition | OtherCondition

record RuleEmailAction =
  rea_SendToServiceOwners :: "bool option"
  rea_CustomEmails :: "string list option"

record RuleWebhookAction =
  rwa_ServiceURI :: "string option"
  rwa_Properties :: "(string \<times> string option) list option"

datatype RuleAction = EmailAction RuleEmailAction | WebhookAction RuleWebhookAction | OtherAction

record AlertRule =
  ar_Name :: "string option"
  ar_Description :: "string option"
  ar_IsEnabled :: "bool option"
  ar_Condition :: "RuleCondition option"
  ar_Actions :: "RuleAction list option"

record AlertRuleResource =
  arr_Response :: "httpResponse option"
  arr_ID :: "string option"
  arr_Name :: "string option"
  arr_Location :: "string option"
  arr_Tags :: tagMap
  arr_AlertRule :: "AlertRule option"

record 'w alertRulesClient =
  arr_Get :: "callCtx \<Rightarrow> string \<Rightarrow> string \<Rightarrow> 'w \<Rightarrow> (AlertRuleResource \<times> error option) \<times> 'w"
  arr_CreateOrUpdate ::
    "callCtx \<Rightarrow> string \<Rightarrow> string \<Rightarrow> AlertRuleResource \<Rightarrow> 'w \<Rightarrow>
     (AlertRuleResource \<times> error option) \<times> 'w"
  arr_Delete ::
    "callCtx \<Rightarrow> string \<Rightarrow> string \<Rightarrow> 'w \<Rightarrow> (httpResponse option \<times> error option) \<times> 'w"

subsection \<open>datalake store filesystem\<close>

record FileStatusResult =
  fsr_Response :: "httpResponse option"

record FileOperationResult =
  for_Response :: "httpResponse option"

record 'w filesClient =
  AdlsFileSystemDNSSuffix :: string
  fs_GetFileStatus ::
    "callCtx \<Rightarrow> string \<Rightarrow> string \<Rightarrow> bool option \<Rightarrow> 'w \<Rightarrow> (FileStatusResult \<times> error option) \<times> 'w"
  fs_Create ::
    "callCtx \<Rightarrow> string \<Rightarrow> string \<Rightarrow> string \<Rightarrow> bool option \<Rightarrow> string \<Rightarrow> 'w \<Rightarrow>
     (httpResponse option \<times> error option) \<times> 'w"
  fs_Delete ::
    "callCtx \<Rightarrow> string \<Rightarrow> string \<Rightarrow> bool option \<Rightarrow> 'w \<Rightarrow>
     (FileOperationResult \<times> error option) \<times> 'w"

subsection \<open>authorization\<close>

record RoleAssignmentPropertiesWithScope =
  raps_Scope :: "string option"
  raps_RoleDefinitionID :: "string option"
  raps_PrincipalID :: "string option"

record RoleAssignment =
  ra_Response :: "httpResponse option"
  ra_ID :: "string option"
  ra_Name :: "string option"
  ra_RoleAssignmentPropertiesWithScope :: "RoleAssignmentPropertiesWithScope option"

record RoleAssignmentProperties =
  rap_RoleDefinitionID :: "string option"
  rap_PrincipalID :: "string option"

record RoleAssignmentCreateParameters =
  racp_RoleAssignmentProperties :: "RoleAssignmentProperties option"

record RoleDefinition =
  rdef_ID :: "string option"

record 'w roleAssignmentsClient =
  ra_Get :: "callCtx \<Rightarrow> string \<Rightarrow> string \<Rightarrow> 'w \<Rightarrow> (RoleAssignment \<times> error option) \<times> 'w"
  ra_GetByID :: "callCtx \<Rightarrow> string \<Rightarrow> 'w \<Rightarrow> (RoleAssignment \<times> error option) \<times> 'w"
  ra_Create ::
    "callCtx \<Rightarrow> string \<Rightarrow> string \<Rightarrow> RoleAssignmentCreateParameters \<Rightarrow> 'w \<Rightarrow>
     (RoleAssignment \<times> error option) \<times> 'w"
  ra_Delete :: "callCtx \<Rightarrow> string \<Rightarrow> string \<Rightarrow> 'w \<Rightarrow> (RoleAssignment \<times> error option) \<times> 'w"

record 'w roleDefinitionsClient =
  rdef_List ::
    "callCtx \<Rightarrow> string \<Rightarrow> string \<Rightarrow> 'w \<Rightarrow> (RoleDefinition list \<times> error option) \<times> 'w"

subsection \<open>operationsmanagement\<close>

record SolutionPlan =
  sp_Name :: "string option"
  sp_Publisher :: "string option"
  sp_PromotionCode :: "string option"
  sp_Product :: "string option"

record SolutionProperties =
  sop_WorkspaceResourceID :: "string option"

record Solution =
  sol_Response :: "httpResponse option"
  sol_ID :: "string option"
  sol_Name :: "string option"
  sol_Location :: "string option"
  sol_Plan :: "SolutionPlan option"
  sol_Properties :: "SolutionProperties option"

record 'w solutionsClient =
  sol_Get :: "callCtx \<Rightarrow> string \<Rightarrow> string \<Rightarrow> 'w \<Rightarrow> (Solution \<times> error option) \<times> 'w"
  sol_CreateOrUpdate ::
    "callCtx \<Rightarrow> string \<Rightarrow> string \<Rightarrow> Solution \<Rightarrow> 'w \<Rightarrow> (future \<times> error option) \<times> 'w"
  sol_Delete :: "callCtx \<Rightarrow> string \<Rightarrow> string \<Rightarrow> 'w \<Rightarrow> (future \<times> error option) \<times> 'w"
  sol_WaitForCompletionRef :: "callCtx \<Rightarrow> future \<Rightarrow> 'w \<Rightarrow> (future \<times> error option) \<times> 'w"

subsection \<open>keyvault\<close>

record JSONWebKey =
  jwk_Kid :: "string option"
  jwk_Kty :: string
  jwk_KeyOps :: "string list option"
  jwk_N :: "string option"
  jwk_E :: "string option"

record KeyBundle =
  kb_Response :: "httpResponse option"
  kb_Key :: "JSONWebKey option"
  kb_Tags :: tagMap

record DeletedKeyBundle =
  dkb_Response :: "httpResponse option"

record KeyAttributes =
  ka_Enabled :: "bool option"

record KeyCreateParameters =
  kcp_Kty :: string
  kcp_KeySize :: "32 word option"
  kcp_KeyOps :: "string list option"
  kcp_KeyAttributes :: "KeyAttributes option"
  kcp_Tags :: tagMap

record KeyUpdateParameters =
  kup_KeyOps :: "string list option"
  kup_KeyAttributes :: "KeyAttributes option"
  kup_Tags :: tagMap

record 'w keyVaultClient =
  kv_GetKey :: "callCtx \<Rightarrow> string \<Rightarrow> string \<Rightarrow> string \<Rightarrow> 'w \<Rightarrow> (KeyBundle \<times> error option) \<times> 'w"
  kv_CreateKey ::
    "callCtx \<Rightarrow> string \<Rightarrow> string \<Rightarrow> KeyCreateParameters \<Rightarrow> 'w \<Rightarrow> (KeyBundle \<times> error option) \<times> 'w"
  kv_UpdateKey ::
    "callCtx \<Rightarrow> string \<Rightarrow> string \<Rightarrow> string \<Rightarrow> KeyUpdateParameters \<Rightarrow> 'w \<Rightarrow>
     (KeyBundle \<times> error option) \<times> 'w"
  kv_DeleteKey ::
    "callCtx \<Rightarrow> string \<Rightarrow> string \<Rightarrow> 'w \<Rightarrow> (DeletedKeyBundle \<times> error option) \<times> 'w"

subsection \<open>dns\<close>

text \<open>
  \<open>dns.RecordSet\<close> embeds \<open>*RecordSetProperties\<close>: \<open>resp.TTL\<close>,
  \<open>resp.AaaaRecords\<close> and \<open>resp.Metadata\<close> read through that pointer.
\<close>

record AaaaRecord =
  Ipv6Address :: "string option"

record RecordSetProperties =
  rsp_Metadata :: tagMap
  rsp_TTL :: "64 word option"
  rsp_AaaaRecords :: "AaaaRecord list option"

record RecordSet =
  rs_Response :: "httpResponse option"
  rs_ID :: "string option"
  rs_Name :: "string option"
  rs_RecordSetProperties :: "RecordSetProperties option"

record 'w recordSetsClient =
  rs_Get ::
    "callCtx \<Rightarrow> string \<Rightarrow> string \<Rightarrow> string \<Rightarrow> string \<Rightarrow> 'w \<Rightarrow> (RecordSet \<times> error option) \<times> 'w"
  rs_CreateOrUpdate ::
    "callCtx \<Rightarrow> string \<Rightarrow> string \<Rightarrow> string \<Rightarrow> string \<Rightarrow> RecordSet \<Rightarrow> string \<Rightarrow> string \<Rightarrow> 'w \<Rightarrow>
     (RecordSet \<times> error option) \<times> 'w"
  rs_Delete ::
    "callCtx \<Rightarrow> string \<Rightarrow> string \<Rightarrow> string \<Rightarrow> string \<Rightarrow> string \<Rightarrow> 'w \<Rightarrow>
     (httpResponse option \<times> error option) \<times> 'w"

section \<open>The provider's client and the helpers that are not among the source files\<close>

text \<open>\<open>ArmClient\<close>: the clients the adapters take from \<open>meta\<close>.\<close>

record 'w ArmClient =
  schedulerJobCollectionsClient :: "'w jobCollectionsClient"
  eventHubConsumerGroupClient :: "'w consumerGroupsClient"
  trafficManagerProfilesClient :: "'w profilesClient"
  monitorAlertRulesClient :: "'w alertRulesClient"
  dataLakeStoreFilesClient :: "'w filesClient"
  roleAssignmentsClient :: "'w roleAssignmentsClient"
  roleDefinitionsClient :: "'w roleDefinitionsClient"
  solutionsClient :: "'w solutionsClient"
  keyVaultManagementClient :: "'w keyVaultClient"
  dnsClient :: "'w recordSetsClient"

record ResourceID =
  SubscriptionID :: string
  ResourceGroup :: string
  Provider :: string
  Path :: "string \<Rightarrow> string option"

text \<open>\<open>id.Path[k]\<close>: the empty string when the key is missing.\<close>

definition pathOf :: "ResourceID \<Rightarrow> string \<Rightarrow> string" where
  "pathOf rid k = (case Path rid k of None \<Rightarrow> [] | Some v \<Rightarrow> v)"

record KeyVaultChildID =
  KeyVaultBaseUrl :: string
  kvc_Name :: string
  kvc_Version :: string

record URL =
  url_Host :: string
  url_Path :: string

text \<open>
  The adapters call helpers of this repository that are not among the source files,
  and library functions whose results the code cannot determine. They are parameters
  of the embedding, so every theorem holds for whatever they compute:
  \<open>parseAzureResourceID\<close>, \<open>parseKeyVaultChildID\<close>,
  \<open>azureRMNormalizeLocation\<close>, \<open>expandTags\<close>, \<open>filterTags\<close>,
  \<open>tf.TimeoutForCreateUpdate\<close>; \<open>flattenTags\<close> is the value
  \<open>flattenAndSetTags\<close> computes from a tag map; \<open>urlParse\<close> is \<open>url.Parse\<close>;
  \<open>osOpen\<close> and \<open>ioutilReadAll\<close> read a local file (a file handle is the path);
  \<open>GenerateUUID\<close> draws a fresh name; \<open>retryAttempts\<close> is the number of attempts
  \<open>resource.Retry\<close> makes before its timeout elapses (the clock is not modelled).
\<close>

record 'w provider =
  meta :: "'w ArmClient"
  parseAzureResourceID :: "string \<Rightarrow> error + ResourceID"
  parseKeyVaultChildID :: "string \<Rightarrow> error + KeyVaultChildID"
  azureRMNormalizeLocation :: "string \<Rightarrow> string"
  expandTags :: "(string \<times> val) list \<Rightarrow> tagMap"
  flattenTags :: "tagMap \<Rightarrow> val"
  filterTags :: "tagMap \<Rightarrow> string list \<Rightarrow> tagMap"
  TimeoutForCreateUpdate :: "ResourceData \<Rightarrow> timeoutKey"
  urlParse :: "string \<Rightarrow> error + URL"
  osOpen :: "string \<Rightarrow> error + string"
  ioutilReadAll :: "string \<Rightarrow> error + string"
  GenerateUUID :: "'w \<Rightarrow> (string \<times> error option) \<times> 'w"
  retryAttempts :: "timeoutKey \<Rightarrow> nat"

text \<open>
  Modelled from the spec: \<open>flattenAndSetTags\<close> is not among the source files. The
  spec has Read flatten the remote representation "back into local configuration
  fields, including nested blocks and tag maps": the helper writes the flattened tag
  map into the field \<open>tags\<close>, and nothing else.
\<close>

definition flattenAndSetTags :: "'w provider \<Rightarrow> tagMap \<Rightarrow> 'w state \<Rightarrow> 'w state" where
  "flattenAndSetTags p tagsMap s = dSet0 ''tags'' (flattenTags p tagsMap) s"

section \<open>Scheduler job collection (azurerm/resource_arm_scheduler_job_collection.go)\<close>

text \<open>
  \<open>m[k] = v\<close> on a map, and the two-result type assertions on a map entry:
  \<open>v, ok := m[k].(int)\<close> is not ok when the key is missing or the value is of
  another type.
\<close>

definition mapAssign :: "(string \<times> val) list \<Rightarrow> string \<Rightarrow> val \<Rightarrow> (string \<times> val) list" where
  "mapAssign m k v = AList.update k v m"

fun asInt :: "val option \<Rightarrow> 64 word option" where
  "asInt (Some (VInt v)) = Some v"
| "asInt _ = None"

fun asString :: "val option \<Rightarrow> string option" where
  "asString (Some (VString v)) = Some v"
| "asString _ = None"

fun asBool :: "val option \<Rightarrow> bool option" where
  "asBool (Some (VBool v)) = Some v"
| "asBool _ = None"

text \<open>\<open>v, ok := m[k].(int); ok && v > 0\<close>: the value when the test holds.\<close>

definition positiveInt :: "val option \<Rightarrow> 64 word option" where
  "positiveInt x = (case asInt x of None \<Rightarrow> None | Some v \<Rightarrow> (if 0 < sint v then Some v else None))"

text \<open>\<open>int32(v)\<close> of an \<open>int\<close>: the low 32 bits.\<close>

definition toInt32 :: "64 word \<Rightarrow> 32 word" where
  "toInt32 v = ucast v"

definition expandAzureArmSchedulerJobCollectionQuota :: "ResourceData \<Rightarrow> string + JobCollectionQuota option" where
  "expandAzureArmSchedulerJobCollectionQuota d =
     (case dGet d ''quota'' of
        VList qb \<Rightarrow>
          (case qb of
             [] \<Rightarrow> Inr None
           | q0 # _ \<Rightarrow>
               (case q0 of
                  VMap quotaBlock \<Rightarrow>
                    Inr (Some
                      \<lparr>jcq_MaxJobCount =
                         (case asInt (map_of quotaBlock ''max_job_count'') of
                            None \<Rightarrow> None | Some v \<Rightarrow> Some (toInt32 v)),
                       jcq_MaxRecurrence = Some
                         \<lparr>jmr_Frequency =
                            (case asString (map_of quotaBlock ''max_recurrence_frequency'') of
                               None \<Rightarrow> [] | Some v \<Rightarrow> v),
                          jmr_Interval =
                            (case positiveInt (map_of quotaBlock ''max_recurrence_interval'') of
                               Some v \<Rightarrow> Some (toInt32 v)
                             | None \<Rightarrow>
                                 (case positiveInt (map_of quotaBlock ''max_retry_interval'') of
                                    Some v \<Rightarrow> Some (toInt32 v)
                                  | None \<Rightarrow> None))\<rparr>\<rparr>)
                | _ \<Rightarrow> Inl badAssert))
      | _ \<Rightarrow> Inr None)"

definition flattenAzureArmSchedulerJobCollectionQuota :: "JobCollectionQuota option \<Rightarrow> val" where
  "flattenAzureArmSchedulerJobCollectionQuota quota =
     (case quota of
        None \<Rightarrow> VNil
      | Some q \<Rightarrow>
          (let quotaBlock0 = [];
               quotaBlock1 =
                 (case jcq_MaxJobCount q of
                    None \<Rightarrow> quotaBlock0
                  | Some v \<Rightarrow> mapAssign quotaBlock0 ''max_job_count'' (VInt32 v));
               quotaBlock2 =
                 (case jcq_MaxRecurrence q of
                    None \<Rightarrow> quotaBlock1
                  | Some recurrence \<Rightarrow>
                      mapAssign
                        (case jmr_Interval recurrence of
                           None \<Rightarrow> quotaBlock1
                         | Some v \<Rightarrow>
                             mapAssign (mapAssign quotaBlock1 ''max_recurrence_interval'' (VInt32 v))
                               ''max_retry_interval'' (VInt32 v))
                        ''max_recurrence_frequency'' (VString (jmr_Frequency recurrence)))
           in VList [VMap quotaBlock2]))"

definition resourceArmSchedulerJobCollectionRead :: "'w provider \<Rightarrow> 'w state \<Rightarrow> 'w state \<times> outcome" where
  "resourceArmSchedulerJobCollectionRead p s =
     (let client = schedulerJobCollectionsClient (meta p) in
      case parseAzureResourceID p (rd_Id (rd s)) of
        Inl err \<Rightarrow> (s, ReturnErr err)
      | Inr rid \<Rightarrow>
          (let name = pathOf rid ''jobCollections'';
               resourceGroup = ResourceGroup rid
           in case invoke GET StopContext [resourceGroup, name] jc_Response jc_ID
                     (jc_Get client StopContext resourceGroup name) s of
                ((collection, err), s1) \<Rightarrow>
                  if err \<noteq> None then
                    (if ResponseWasNotFound (jc_Response collection) then (SetId [] s1, ReturnNil)
                     else (s1, ReturnErr (Errorf
                       ''Error making Read request on Scheduler Job Collection %q (Resource Group %q): %+v''
                       [name, resourceGroup] err)))
                  else
                    (let s2 = dSet0 ''name'' (ptrString (jc_Name collection)) s1;
                         s3 = dSet0 ''resource_group_name'' (VString resourceGroup) s2;
                         s4 = (case jc_Location collection of
                                 None \<Rightarrow> s3
                               | Some location \<Rightarrow>
                                   dSet0 ''location'' (VString (azureRMNormalizeLocation p location)) s3);
                         s5 = flattenAndSetTags p (jc_Tags collection) s4
                     in case jc_Properties collection of
                          None \<Rightarrow> (s5, ReturnNil)
                        | Some properties \<Rightarrow>
                            (let s6 = (case jcp_Sku properties of
                                         None \<Rightarrow> s5
                                       | Some sku \<Rightarrow> dSet0 ''sku'' (VString (sku_Name sku)) s5);
                                 s7 = dSet0 ''state'' (VString (jcp_State properties)) s6
                             in case dSet ''quota''
                                       (flattenAzureArmSchedulerJobCollectionQuota (jcp_Quota properties)) s7 of
                                  (s8, None) \<Rightarrow> (s8, ReturnNil)
                                | (s8, Some e) \<Rightarrow>
                                    (case jc_Name collection of
                                       None \<Rightarrow> (s8, GoPanic nilDeref)
                                     | Some n \<Rightarrow> (s8, ReturnErr (Errorf
                                         ''Error flattening quota for Job Collection %q (Resource Group %q): %+v''
                                         [n, resourceGroup] (Some e))))))))"

definition resourceArmSchedulerJobCollectionCreateUpdate :: "'w provider \<Rightarrow> 'w state \<Rightarrow> 'w state \<times> outcome" where
  "resourceArmSchedulerJobCollectionCreateUpdate p s =
     (let client = schedulerJobCollectionsClient (meta p);
          name = getString (rd s) ''name'';
          resourceGroup = getString (rd s) ''resource_group_name''
      in case (if rd_IsNewResource (rd s) then
                 (case invoke GET StopContext [resourceGroup, name] jc_Response jc_ID
                         (jc_Get client StopContext resourceGroup name) s of
                    ((resp, err), s1) \<Rightarrow>
                      if err \<noteq> None \<and> \<not> ResponseWasNotFound (jc_Response resp) then
                        (s1, Some (ReturnErr (Errorf
                           ''Error checking for the existence of Scheduler Job Collection %q (Resource Group %q): %+v''
                           [name, resourceGroup] err)))
                      else (case jc_ID resp of
                              Some i \<Rightarrow> (s1, Some (ReturnErr
                                (ImportAsExistsError ''azurerm_scheduler_job_collection'' i)))
                            | None \<Rightarrow> (s1, None)))
               else (s, None)) of
           (s1, Some out) \<Rightarrow> (s1, out)
         | (s1, None) \<Rightarrow>
             (let location = azureRMNormalizeLocation p (getString (rd s1) ''location'');
                  tags = getMap (rd s1) ''tags''
              in case expandAzureArmSchedulerJobCollectionQuota (rd s1) of
                   Inl pn \<Rightarrow> (s1, GoPanic pn)
                 | Inr quota \<Rightarrow>
                     (let collection =
                            \<lparr>jc_Response = None, jc_ID = None, jc_Name = None,
                             jc_Location = Some location,
                             jc_Tags = expandTags p tags,
                             jc_Properties = Some
                               \<lparr>jcp_Sku = Some \<lparr>sku_Name = getString (rd s1) ''sku''\<rparr>,
                                jcp_State = getString (rd s1) ''state'',
                                jcp_Quota = quota\<rparr>\<rparr>;
                          waitCtx = WithTimeout (TimeoutForCreateUpdate p (rd s1))
                      in case invoke WRITE waitCtx [resourceGroup, name] jc_Response jc_ID
                                (jc_CreateOrUpdate client waitCtx resourceGroup name collection) s1 of
                           ((collection1, err), s2) \<Rightarrow>
                             if err \<noteq> None then
                               (s2, ReturnErr (Errorf
                                  ''Error creating/updating Scheduler Job Collection %q (Resource Group %q): %+v''
                                  [name, resourceGroup] err))
                             else
                               (case invoke GET StopContext [resourceGroup, name] jc_Response jc_ID
                                       (jc_Get client StopContext resourceGroup name) s2 of
                                  ((collection2, err2), s3) \<Rightarrow>
                                    if err2 \<noteq> None then
                                      (s3, ReturnErr (Errorf
                                         ''Error reading Scheduler Job Collection %q after create/update (Resource Group %q): %+v''
                                         [name, resourceGroup] err2))
                                    else
                                      (case jc_ID collection2 of
                                         None \<Rightarrow> (s3, GoPanic nilDeref)
                                       | Some i \<Rightarrow>
                                           resourceArmSchedulerJobCollectionRead p (SetId i s3))))))"


section \<open>Event hub consumer group (azurerm/resource_arm_eventhub_consumer_group.go)\<close>

definition resourceArmEventHubConsumerGroupRead :: "'w provider \<Rightarrow> 'w state \<Rightarrow> 'w state \<times> outcome" where
  "resourceArmEventHubConsumerGroupRead p s =
     (let client = eventHubConsumerGroupClient (meta p) in
      case parseAzureResourceID p (rd_Id (rd s)) of
        Inl err \<Rightarrow> (s, ReturnErr err)
      | Inr rid \<Rightarrow>
          (let resGroup = ResourceGroup rid;
               namespaceName = pathOf rid ''namespaces'';
               eventHubName = pathOf rid ''eventhubs'';
               name = pathOf rid ''consumergroups''
           in case invoke GET StopContext [resGroup, namespaceName, eventHubName, name] cg_Response cg_ID
                     (cg_Get client StopContext resGroup namespaceName eventHubName name) s of
                ((resp, err), s1) \<Rightarrow>
                  if err \<noteq> None then
                    (if ResponseWasNotFound (cg_Response resp) then (SetId [] s1, ReturnNil)
                     else (s1, ReturnErr (Errorf
                       ''Error making Read request on Azure EventHub Consumer Group %s: %+v'' [name] err)))
                  else
                    (let s2 = dSet0 ''name'' (VString name) s1;
                         s3 = dSet0 ''eventhub_name'' (VString eventHubName) s2;
                         s4 = dSet0 ''namespace_name'' (VString namespaceName) s3;
                         s5 = dSet0 ''resource_group_name'' (VString resGroup) s4
                     in case cg_ConsumerGroupProperties resp of
                          None \<Rightarrow> (s5, GoPanic nilDeref)
                        | Some props \<Rightarrow>
                            (dSet0 ''user_metadata'' (ptrString (cgp_UserMetadata props)) s5, ReturnNil))))"

definition resourceArmEventHubConsumerGroupCreateUpdate :: "'w provider \<Rightarrow> 'w state \<Rightarrow> 'w state \<times> outcome" where
  "resourceArmEventHubConsumerGroupCreateUpdate p s =
     (let client = eventHubConsumerGroupClient (meta p);
          name = getString (rd s) ''name'';
          namespaceName = getString (rd s) ''namespace_name'';
          eventHubName = getString (rd s) ''eventhub_name'';
          resGroup = getString (rd s) ''resource_group_name''
      in case (if rd_IsNewResource (rd s) then
                 (case invoke GET StopContext [resGroup, namespaceName, eventHubName, name] cg_Response cg_ID
                         (cg_Get client StopContext resGroup namespaceName eventHubName name) s of
                    ((resp, err), s1) \<Rightarrow>
                      if err \<noteq> None \<and> \<not> ResponseWasNotFound (cg_Response resp) then
                        (s1, Some (ReturnErr (Errorf
                           ''Error checking for the existence of Consumer Group %q (EventHub %q / Namespace %q / Resource Group %q): %+v''
                           [name, eventHubName, namespaceName, resGroup] err)))
                      else (case cg_ID resp of
                              Some i \<Rightarrow> (s1, Some (ReturnErr
                                (ImportAsExistsError ''azurerm_eventhub_consumer_group'' i)))
                            | None \<Rightarrow> (s1, None)))
               else (s, None)) of
           (s1, Some out) \<Rightarrow> (s1, out)
         | (s1, None) \<Rightarrow>
             (let userMetaData = getString (rd s1) ''user_metadata'';
                  parameters =
                    \<lparr>cg_Response = None, cg_ID = None, cg_Name = Some name,
                     cg_ConsumerGroupProperties = Some \<lparr>cgp_UserMetadata = Some userMetaData\<rparr>\<rparr>;
                  waitCtx = WithTimeout (TimeoutForCreateUpdate p (rd s1))
              in case invoke WRITE waitCtx [resGroup, namespaceName, eventHubName, name] cg_Response cg_ID
                        (cg_CreateOrUpdate client waitCtx resGroup namespaceName eventHubName name parameters) s1 of
                   ((written, err), s2) \<Rightarrow>
                     (case err of
                        Some e \<Rightarrow> (s2, ReturnErr e)
                      | None \<Rightarrow>
                          (case invoke GET StopContext [resGroup, namespaceName, eventHubName, name] cg_Response cg_ID
                                  (cg_Get client StopContext resGroup namespaceName eventHubName name) s2 of
                             ((read, err2), s3) \<Rightarrow>
                               (case err2 of
                                  Some e \<Rightarrow> (s3, ReturnErr e)
                                | None \<Rightarrow>
                                    (case cg_ID read of
                                       None \<Rightarrow> (s3, ReturnErr (Errorf
                                         ''Cannot read EventHub Consumer Group %s (resource group %s) ID''
                                         [name, resGroup] None))
                                     | Some i \<Rightarrow>
                                         resourceArmEventHubConsumerGroupRead p (SetId i s3)))))))"


section \<open>Traffic manager profile (azurerm/resource_arm_traffic_manager_profile.go)\<close>

text \<open>\<open>int64(v)\<close> of an \<open>int\<close> and \<open>int(v)\<close> of an \<open>int64\<close>, at 64 bits both.\<close>

definition int64OfInt :: "64 word \<Rightarrow> 64 word" where
  "int64OfInt v = scast v"

definition intOfInt64 :: "64 word \<Rightarrow> 64 word" where
  "intOfInt64 v = scast v"

definition expandArmTrafficManagerMonitorConfig :: "ResourceData \<Rightarrow> string + MonitorConfig" where
  "expandArmTrafficManagerMonitorConfig d =
     (case getSetList d ''monitor_config'' of
        [] \<Rightarrow> Inl indexRange
      | m0 # _ \<Rightarrow>
          (case m0 of
             VMap monitor \<Rightarrow>
               (case asString (map_of monitor ''protocol'') of
                  None \<Rightarrow> Inl badAssert
                | Some proto \<Rightarrow>
                    (case asInt (map_of monitor ''port'') of
                       None \<Rightarrow> Inl badAssert
                     | Some port \<Rightarrow>
                         (case asString (map_of monitor ''path'') of
                            None \<Rightarrow> Inl badAssert
                          | Some path \<Rightarrow>
                              Inr \<lparr>mc_Protocol = proto, mc_Port = Some (int64OfInt port),
                                   mc_Path = Some path\<rparr>)))
           | _ \<Rightarrow> Inl badAssert))"

definition expandArmTrafficManagerDNSConfig :: "ResourceData \<Rightarrow> string + DNSConfig" where
  "expandArmTrafficManagerDNSConfig d =
     (case getSetList d ''dns_config'' of
        [] \<Rightarrow> Inl indexRange
      | d0 # _ \<Rightarrow>
          (case d0 of
             VMap dns \<Rightarrow>
               (case asString (map_of dns ''relative_name'') of
                  None \<Rightarrow> Inl badAssert
                | Some name \<Rightarrow>
                    (case asInt (map_of dns ''ttl'') of
                       None \<Rightarrow> Inl badAssert
                     | Some ttl \<Rightarrow>
                         Inr \<lparr>dc_RelativeName = Some name, dc_Fqdn = None,
                              dc_TTL = Some (int64OfInt ttl)\<rparr>))
           | _ \<Rightarrow> Inl badAssert))"

definition flattenAzureRMTrafficManagerProfileDNSConfig :: "DNSConfig option \<Rightarrow> string + val list" where
  "flattenAzureRMTrafficManagerProfileDNSConfig dns =
     (case dns of
        None \<Rightarrow> Inl nilDeref
      | Some c \<Rightarrow>
          (case dc_RelativeName c of
             None \<Rightarrow> Inl nilDeref
           | Some relativeName \<Rightarrow>
               (case dc_TTL c of
                  None \<Rightarrow> Inl nilDeref
                | Some ttl \<Rightarrow>
                    Inr [VMap (mapAssign (mapAssign [] ''relative_name'' (VString relativeName))
                                 ''ttl'' (VInt (intOfInt64 ttl)))])))"

definition flattenAzureRMTrafficManagerProfileMonitorConfig :: "MonitorConfig option \<Rightarrow> string + val list" where
  "flattenAzureRMTrafficManagerProfileMonitorConfig cfg =
     (case cfg of
        None \<Rightarrow> Inl nilDeref
      | Some c \<Rightarrow>
          (let result1 = mapAssign [] ''protocol'' (VString (mc_Protocol c)) in
           case mc_Port c of
             None \<Rightarrow> Inl nilDeref
           | Some port \<Rightarrow>
               (let result2 = mapAssign result1 ''port'' (VInt (intOfInt64 port));
                    result3 = (case mc_Path c of
                                 None \<Rightarrow> result2
                               | Some path \<Rightarrow> mapAssign result2 ''path'' (VString path))
                in Inr [VMap result3])))"

definition getArmTrafficManagerProfileProperties :: "ResourceData \<Rightarrow> string + ProfileProperties" where
  "getArmTrafficManagerProfileProperties d =
     (let routingMethod = getString d ''traffic_routing_method'' in
      case expandArmTrafficManagerDNSConfig d of
        Inl pn \<Rightarrow> Inl pn
      | Inr dnsConfig \<Rightarrow>
          (case expandArmTrafficManagerMonitorConfig d of
             Inl pn \<Rightarrow> Inl pn
           | Inr monitorConfig \<Rightarrow>
               Inr \<lparr>pp_ProfileStatus =
                      (case dGetOk d ''profile_status'' of
                         None \<Rightarrow> []
                       | Some status \<Rightarrow> getString d ''profile_status''),
                    pp_TrafficRoutingMethod = routingMethod,
                    pp_DNSConfig = Some dnsConfig,
                    pp_MonitorConfig = Some monitorConfig\<rparr>))"

definition resourceArmTrafficManagerProfileRead :: "'w provider \<Rightarrow> 'w state \<Rightarrow> 'w state \<times> outcome" where
  "resourceArmTrafficManagerProfileRead p s =
     (let client = trafficManagerProfilesClient (meta p) in
      case parseAzureResourceID p (rd_Id (rd s)) of
        Inl err \<Rightarrow> (s, ReturnErr err)
      | Inr rid \<Rightarrow>
          (let resGroup = ResourceGroup rid;
               name = pathOf rid ''trafficManagerProfiles''
           in case invoke GET StopContext [resGroup, name] tm_Response tm_ID
                     (tm_Get client StopContext resGroup name) s of
                ((resp, err), s1) \<Rightarrow>
                  if err \<noteq> None then
                    (if ResponseWasNotFound (tm_Response resp) then (SetId [] s1, ReturnNil)
                     else (s1, ReturnErr (Errorf
                       ''Error making Read request on Traffic Manager Profile %s: %+v'' [name] err)))
                  else
                    (case tm_ProfileProperties resp of
                       None \<Rightarrow> (s1, GoPanic nilDeref)
                     | Some profile \<Rightarrow>
                         (let s2 = dSet0 ''resource_group_name'' (VString resGroup) s1;
                              s3 = dSet0 ''name'' (ptrString (tm_Name resp)) s2;
                              s4 = dSet0 ''profile_status'' (VString (pp_ProfileStatus profile)) s3;
                              s5 = dSet0 ''traffic_routing_method''
                                     (VString (pp_TrafficRoutingMethod profile)) s4
                          in case flattenAzureRMTrafficManagerProfileDNSConfig (pp_DNSConfig profile) of
                               Inl pn \<Rightarrow> (s5, GoPanic pn)
                             | Inr dnsFlat \<Rightarrow>
                                 (let s6 = dSet0 ''dns_config'' (NewSet dnsFlat) s5 in
                                  case pp_DNSConfig profile of
                                    None \<Rightarrow> (s6, GoPanic nilDeref)
                                  | Some dnsConfig \<Rightarrow>
                                      (let s7 = dSet0 ''fqdn'' (ptrString (dc_Fqdn dnsConfig)) s6 in
                                       case flattenAzureRMTrafficManagerProfileMonitorConfig
                                              (pp_MonitorConfig profile) of
                                         Inl pn \<Rightarrow> (s7, GoPanic pn)
                                       | Inr monitorFlat \<Rightarrow>
                                           (let s8 = dSet0 ''monitor_config'' (NewSet monitorFlat) s7
                                            in (flattenAndSetTags p (tm_Tags resp) s8, ReturnNil))))))))"

definition resourceArmTrafficManagerProfileCreateUpdate :: "'w provider \<Rightarrow> 'w state \<Rightarrow> 'w state \<times> outcome" where
  "resourceArmTrafficManagerProfileCreateUpdate p s =
     (let client = trafficManagerProfilesClient (meta p);
          name = getString (rd s) ''name'';
          resGroup = getString (rd s) ''resource_group_name''
      in case (if rd_IsNewResource (rd s) then
                 (case invoke GET StopContext [resGroup, name] tm_Response tm_ID
                         (tm_Get client StopContext resGroup name) s of
                    ((resp, err), s1) \<Rightarrow>
                      if err \<noteq> None \<and> \<not> ResponseWasNotFound (tm_Response resp) then
                        (s1, Some (ReturnErr (Errorf
                           ''Error checking for the existence of Traffic Manager Profile %q (Resource Group %q): %+v''
                           [name, resGroup] err)))
                      else (case tm_ID resp of
                              Some i \<Rightarrow> (s1, Some (ReturnErr
                                (ImportAsExistsError ''azurerm_traffic_manager_profile'' i)))
                            | None \<Rightarrow> (s1, None)))
               else (s, None)) of
           (s1, Some out) \<Rightarrow> (s1, out)
         | (s1, None) \<Rightarrow>
             (let location = ''global'';
                  tags = getMap (rd s1) ''tags''
              in case getArmTrafficManagerProfileProperties (rd s1) of
                   Inl pn \<Rightarrow> (s1, GoPanic pn)
                 | Inr props \<Rightarrow>
                     (let profile =
                            \<lparr>tm_Response = None, tm_ID = None, tm_Name = Some name,
                             tm_Location = Some location, tm_Tags = expandTags p tags,
                             tm_ProfileProperties = Some props\<rparr>;
                          waitCtx = WithTimeout (TimeoutForCreateUpdate p (rd s1))
                      in case invoke WRITE waitCtx [resGroup, name] tm_Response tm_ID
                                (tm_CreateOrUpdate client waitCtx resGroup name profile) s1 of
                           ((written, err), s2) \<Rightarrow>
                             (case err of
                                Some e \<Rightarrow> (s2, ReturnErr e)
                              | None \<Rightarrow>
                                  (case invoke GET StopContext [resGroup, name] tm_Response tm_ID
                                          (tm_Get client StopContext resGroup name) s2 of
                                     ((read, err2), s3) \<Rightarrow>
                                       (case err2 of
                                          Some e \<Rightarrow> (s3, ReturnErr e)
                                        | None \<Rightarrow>
                                            (case tm_ID read of
                                               None \<Rightarrow> (s3, ReturnErr (Errorf
                                                 ''Cannot read TrafficManager profile %s (resource group %s) ID''
                                                 [name, resGroup] None))
                                             | Some i \<Rightarrow>
                                                 resourceArmTrafficManagerProfileRead p (SetId i s3))))))))"


section \<open>Metric alert rule (resource_arm_metric_alertrule.go)\<close>

text \<open>
  The loops of \<open>expandAzureRmMetricThresholdAlertRule\<close>: the custom e-mails, each
  asserted to be a string, and the webhook properties, each value asserted to be a
  string and stored by pointer.
\<close>

fun expandCustomEmails :: "val list \<Rightarrow> string + string list" where
  "expandCustomEmails [] = Inr []"
| "expandCustomEmails (customEmail # rest) =
     (case customEmail of
        VString custom_email \<Rightarrow>
          (case expandCustomEmails rest of
             Inl pn \<Rightarrow> Inl pn
           | Inr customEmails \<Rightarrow> Inr (custom_email # customEmails))
      | _ \<Rightarrow> Inl badAssert)"

fun expandWebhookProperties :: "(string \<times> val) list \<Rightarrow> string + (string \<times> string option) list" where
  "expandWebhookProperties [] = Inr []"
| "expandWebhookProperties ((property_key, property_value) # rest) =
     (case property_value of
        VString property_string \<Rightarrow>
          (case expandWebhookProperties rest of
             Inl pn \<Rightarrow> Inl pn
           | Inr webhook_properties \<Rightarrow> Inr ((property_key, Some property_string) # webhook_properties))
      | _ \<Rightarrow> Inl badAssert)"

definition expandEmailAction :: "ResourceData \<Rightarrow> string + RuleAction list" where
  "expandEmailAction d =
     (case getList d ''email_action'' of
        [] \<Rightarrow> Inr []
      | e0 # _ \<Rightarrow>
          (case e0 of
             VMap email_action \<Rightarrow>
               (case (case map_of email_action ''custom_emails'' of
                        None \<Rightarrow> Inr None
                      | Some v \<Rightarrow>
                          (case v of
                             VList custom_emails \<Rightarrow>
                               (case expandCustomEmails custom_emails of
                                  Inl pn \<Rightarrow> Inl pn
                                | Inr customEmails \<Rightarrow> Inr (Some customEmails))
                           | _ \<Rightarrow> Inl badAssert)) of
                  Inl pn \<Rightarrow> Inl pn
                | Inr customEmails \<Rightarrow>
                    (case (case map_of email_action ''send_to_service_owners'' of
                             None \<Rightarrow> Inr None
                           | Some v \<Rightarrow>
                               (case v of
                                  VBool sendToServiceOwners \<Rightarrow> Inr (Some sendToServiceOwners)
                                | _ \<Rightarrow> Inl badAssert)) of
                       Inl pn \<Rightarrow> Inl pn
                     | Inr sendToServiceOwners \<Rightarrow>
                         Inr [EmailAction \<lparr>rea_SendToServiceOwners = sendToServiceOwners,
                                           rea_CustomEmails = customEmails\<rparr>]))
           | _ \<Rightarrow> Inl badAssert))"

definition expandWebhookAction :: "ResourceData \<Rightarrow> string + RuleAction list" where
  "expandWebhookAction d =
     (case getList d ''webhook_action'' of
        [] \<Rightarrow> Inr []
      | w0 # _ \<Rightarrow>
          (case w0 of
             VMap webhook_action \<Rightarrow>
               (case asString (map_of webhook_action ''service_uri'') of
                  None \<Rightarrow> Inl badAssert
                | Some service_uri \<Rightarrow>
                    (case (case map_of webhook_action ''properties'' of
                             None \<Rightarrow> Inr []
                           | Some v \<Rightarrow>
                               (case v of
                                  VMap properties \<Rightarrow> expandWebhookProperties properties
                                | _ \<Rightarrow> Inl badAssert)) of
                       Inl pn \<Rightarrow> Inl pn
                     | Inr webhook_properties \<Rightarrow>
                         Inr [WebhookAction \<lparr>rwa_ServiceURI = Some service_uri,
                                             rwa_Properties = Some webhook_properties\<rparr>]))
           | _ \<Rightarrow> Inl badAssert))"

text \<open>
  \<open>expandAzureRmMetricThresholdAlertRule\<close>: the e-mail action block, then the
  webhook action block, appended in this order; the error it returns is always nil.
\<close>

definition expandAzureRmMetricThresholdAlertRule :: "ResourceData \<Rightarrow> string + (AlertRule \<times> error option)" where
  "expandAzureRmMetricThresholdAlertRule d =
     (let name = getString d ''name'';
          resource = getString d ''resource_id'';
          metric_name = getString d ''metric_name'';
          metricDataSource = \<lparr>mds_ResourceURI = Some resource, mds_MetricName = Some metric_name\<rparr>;
          operator = getString d ''operator'';
          threshold = getFloat d ''threshold'';
          period = getString d ''period'';
          aggregation = getString d ''aggregation'';
          thresholdRuleCondition =
            \<lparr>trc_DataSource = Some (MetricDataSource metricDataSource),
             trc_Operator = operator,
             trc_Threshold = Some threshold,
             trc_WindowSize = Some period,
             trc_TimeAggregation = aggregation\<rparr>
      in case expandEmailAction d of
           Inl pn \<Rightarrow> Inl pn
         | Inr emailActions \<Rightarrow>
             (case expandWebhookAction d of
                Inl pn \<Rightarrow> Inl pn
              | Inr webhookActions \<Rightarrow>
                  (let actions = emailActions @ webhookActions;
                       enabled = getBool d ''enabled''
                   in Inr (\<lparr>ar_Name = Some name,
                            ar_Description =
                              (case dGetOk d ''description'' of
                                 None \<Rightarrow> None
                               | Some v \<Rightarrow> Some (getString d ''description'')),
                            ar_IsEnabled = Some enabled,
                            ar_Condition = Some (ThresholdCondition thresholdRuleCondition),
                            ar_Actions = Some actions\<rparr>, None))))"

text \<open>
  The loop of Read over \<open>*alertRule.Actions\<close>, with the two lists it appends to; a
  webhook property named \<open>$type\<close> is skipped.
\<close>

fun flattenWebhookProperties :: "(string \<times> string option) list \<Rightarrow> string + (string \<times> val) list" where
  "flattenWebhookProperties [] = Inr []"
| "flattenWebhookProperties ((k, v) # rest) =
     (if k \<noteq> ''$type'' then
        (case v of
           None \<Rightarrow> Inl nilDeref
         | Some x \<Rightarrow>
             (case flattenWebhookProperties rest of
                Inl pn \<Rightarrow> Inl pn
              | Inr properties \<Rightarrow> Inr ((k, VString x) # properties)))
      else flattenWebhookProperties rest)"

fun rangeActions :: "RuleAction list \<Rightarrow> val list \<Rightarrow> val list \<Rightarrow> string + (val list \<times> val list)" where
  "rangeActions [] email_actions webhook_actions = Inr (email_actions, webhook_actions)"
| "rangeActions (ruleAction # rest) email_actions webhook_actions =
     (case ruleAction of
        EmailAction emailAction \<Rightarrow>
          (let email_action1 =
                 (case rea_SendToServiceOwners emailAction of
                    None \<Rightarrow> []
                  | Some sendToOwners \<Rightarrow> mapAssign [] ''send_to_service_owners'' (VBool sendToOwners))
           in case rea_CustomEmails emailAction of
                None \<Rightarrow> Inl nilDeref
              | Some custom_emails \<Rightarrow>
                  rangeActions rest
                    (email_actions @
                       [VMap (mapAssign email_action1 ''custom_emails'' (VList (map VString custom_emails)))])
                    webhook_actions)
      | WebhookAction webhookAction \<Rightarrow>
          (case rwa_ServiceURI webhookAction of
             None \<Rightarrow> Inl nilDeref
           | Some serviceURI \<Rightarrow>
               (case flattenWebhookProperties
                       (case rwa_Properties webhookAction of None \<Rightarrow> [] | Some props \<Rightarrow> props) of
                  Inl pn \<Rightarrow> Inl pn
                | Inr properties \<Rightarrow>
                    rangeActions rest email_actions
                      (webhook_actions @
                         [VMap (mapAssign (mapAssign [] ''service_uri'' (VString serviceURI))
                                  ''properties'' (VMap properties))])))
      | OtherAction \<Rightarrow> rangeActions rest email_actions webhook_actions)"

text \<open>
  The part of Read that flattens the threshold condition: the four fields of the
  condition, then the two of its metric data source. \<open>*Threshold\<close> is dereferenced
  after \<open>operator\<close> is set.
\<close>

definition flattenRuleCondition :: "RuleCondition option \<Rightarrow> 'w state \<Rightarrow> 'w state \<times> string option" where
  "flattenRuleCondition ruleCondition s =
     (case ruleCondition of
        None \<Rightarrow> (s, None)
      | Some c \<Rightarrow>
          (case c of
             OtherCondition \<Rightarrow> (s, None)
           | ThresholdCondition thresholdRuleCondition \<Rightarrow>
               (let s1 = dSet0 ''operator'' (VString (trc_Operator thresholdRuleCondition)) s in
                case trc_Threshold thresholdRuleCondition of
                  None \<Rightarrow> (s1, Some nilDeref)
                | Some threshold \<Rightarrow>
                    (let s2 = dSet0 ''threshold'' (VFloat threshold) s1;
                         s3 = dSet0 ''period'' (ptrString (trc_WindowSize thresholdRuleCondition)) s2;
                         s4 = dSet0 ''aggregation'' (VString (trc_TimeAggregation thresholdRuleCondition)) s3
                     in case trc_DataSource thresholdRuleCondition of
                          None \<Rightarrow> (s4, None)
                        | Some dataSource \<Rightarrow>
                            (case dataSource of
                               OtherDataSource \<Rightarrow> (s4, None)
                             | MetricDataSource metricDataSource \<Rightarrow>
                                 (dSet0 ''metric_name'' (ptrString (mds_MetricName metricDataSource))
                                    (dSet0 ''resource_id'' (ptrString (mds_ResourceURI metricDataSource)) s4),
                                  None))))))"

definition resourceArmMetricAlertRuleRead :: "'w provider \<Rightarrow> 'w state \<Rightarrow> 'w state \<times> outcome" where
  "resourceArmMetricAlertRuleRead p s =
     (let client = monitorAlertRulesClient (meta p) in
      case parseAzureResourceID p (rd_Id (rd s)) of
        Inl err \<Rightarrow> (s, ReturnErr err)
      | Inr rid \<Rightarrow>
          (let name = pathOf rid ''alertrules'';
               resourceGroup = ResourceGroup rid
           in case invoke GET StopContext [resourceGroup, name] arr_Response arr_ID
                     (arr_Get client StopContext resourceGroup name) s of
                ((resp, err), s1) \<Rightarrow>
                  if err \<noteq> None then
                    (if ResponseWasNotFound (arr_Response resp) then (SetId [] s1, ReturnNil)
                     else (s1, ReturnErr (Errorf
                       ''Error making Read request on AzureRM Metric Alert Rule %q: %+v'' [name] err)))
                  else
                    (let s2 = dSet0 ''name'' (VString name) s1;
                         s3 = dSet0 ''resource_group_name'' (VString resourceGroup) s2;
                         s4 = (case arr_Location resp of
                                 None \<Rightarrow> s3
                               | Some location \<Rightarrow>
                                   dSet0 ''location'' (VString (azureRMNormalizeLocation p location)) s3)
                     in case (case arr_AlertRule resp of
                                None \<Rightarrow> (s4, None)
                              | Some alertRule \<Rightarrow>
                                  (let s5 = dSet0 ''description'' (ptrString (ar_Description alertRule)) s4;
                                       s6 = dSet0 ''enabled'' (ptrBool (ar_IsEnabled alertRule)) s5
                                   in case flattenRuleCondition (ar_Condition alertRule) s6 of
                                        (s7, Some pn) \<Rightarrow> (s7, Some pn)
                                      | (s7, None) \<Rightarrow>
                                          (case ar_Actions alertRule of
                                             None \<Rightarrow> (s7, Some nilDeref)
                                           | Some actions \<Rightarrow>
                                               (case rangeActions actions [] [] of
                                                  Inl pn \<Rightarrow> (s7, Some pn)
                                                | Inr (email_actions, webhook_actions) \<Rightarrow>
                                                    (dSet0 ''webhook_action'' (VList webhook_actions)
                                                       (dSet0 ''email_action'' (VList email_actions) s7),
                                                     None))))) of
                          (s8, Some pn) \<Rightarrow> (s8, GoPanic pn)
                        | (s8, None) \<Rightarrow>
                            (let tagMap = filterTags p (arr_Tags resp) [''$type'']
                             in (flattenAndSetTags p tagMap s8, ReturnNil)))))"

definition resourceArmMetricAlertRuleCreateUpdate :: "'w provider \<Rightarrow> 'w state \<Rightarrow> 'w state \<times> outcome" where
  "resourceArmMetricAlertRuleCreateUpdate p s =
     (let client = monitorAlertRulesClient (meta p);
          name = getString (rd s) ''name'';
          resourceGroup = getString (rd s) ''resource_group_name''
      in case (if rd_IsNewResource (rd s) then
                 (case invoke GET StopContext [resourceGroup, name] arr_Response arr_ID
                         (arr_Get client StopContext resourceGroup name) s of
                    ((resp, err), s1) \<Rightarrow>
                      if err \<noteq> None \<and> \<not> ResponseWasNotFound (arr_Response resp) then
                        (s1, Some (ReturnErr (Errorf
                           ''Error checking for the existence of Metric Alert Rule %q (Resource Group %q): %+v''
                           [name, resourceGroup] err)))
                      else (case arr_ID resp of
                              Some i \<Rightarrow> (s1, Some (ReturnErr
                                (ImportAsExistsError ''azurerm_metric_alertrule'' i)))
                            | None \<Rightarrow> (s1, None)))
               else (s, None)) of
           (s1, Some out) \<Rightarrow> (s1, out)
         | (s1, None) \<Rightarrow>
             (let location = azureRMNormalizeLocation p (getString (rd s1) ''location'');
                  tags = getMap (rd s1) ''tags''
              in case expandAzureRmMetricThresholdAlertRule (rd s1) of
                   Inl pn \<Rightarrow> (s1, GoPanic pn)
                 | Inr (alertRule, experr) \<Rightarrow>
                     (case experr of
                        Some e \<Rightarrow> (s1, ReturnErr e)
                      | None \<Rightarrow>
                          (let alertRuleResource =
                                 \<lparr>arr_Response = None, arr_ID = None, arr_Name = Some name,
                                  arr_Location = Some location, arr_Tags = expandTags p tags,
                                  arr_AlertRule = Some alertRule\<rparr>;
                               waitCtx = WithTimeout (TimeoutForCreateUpdate p (rd s1))
                           in case invoke WRITE waitCtx [resourceGroup, name] arr_Response arr_ID
                                     (arr_CreateOrUpdate client waitCtx resourceGroup name alertRuleResource) s1 of
                                ((written, err), s2) \<Rightarrow>
                                  (case err of
                                     Some e \<Rightarrow> (s2, ReturnErr e)
                                   | None \<Rightarrow>
                                       (case invoke GET StopContext [resourceGroup, name] arr_Response arr_ID
                                               (arr_Get client StopContext resourceGroup name) s2 of
                                          ((read, err2), s3) \<Rightarrow>
                                            (case err2 of
                                               Some e \<Rightarrow> (s3, ReturnErr e)
                                             | None \<Rightarrow>
                                                 (case arr_ID read of
                                                    None \<Rightarrow> (s3, ReturnErr (Errorf
                                                      ''Cannot read AzureRM Alert Rule %q (Resource Group %s) ID''
                                                      [name, resourceGroup] None))
                                                  | Some i \<Rightarrow>
                                                      resourceArmMetricAlertRuleRead p (SetId i s3)))))))))"


text \<open>
  \<open>validateMetricAlertRuleTags\<close>. \<open>validateAzureRMTags\<close> is not among the source
  files: it is the parameter \<open>base\<close>, called first on the same arguments. The loop
  over the keys of the map appends one error for every key that equals \<open>$type\<close> up
  to case.
\<close>

fun rangeTagKeys :: "(string \<times> val) list \<Rightarrow> error list \<Rightarrow> error list" where
  "rangeTagKeys [] es = es"
| "rangeTagKeys ((k, v) # rest) es =
     rangeTagKeys rest
       (if EqualFold k ''$type''
        then es @ [Errorf ''the %q is not allowed as tag name'' [k] None]
        else es)"

definition validateMetricAlertRuleTags ::
  "(val \<Rightarrow> string \<Rightarrow> string list \<times> error list) \<Rightarrow> val \<Rightarrow> string \<Rightarrow> string + (string list \<times> error list)"
where
  "validateMetricAlertRuleTags base v f =
     (case base v f of
        (ws, es) \<Rightarrow>
          (case v of
             VMap tagsMap \<Rightarrow> Inr (ws, rangeTagKeys tagsMap es)
           | _ \<Rightarrow> Inl badAssert))"

section \<open>Data lake store file (resource_arm_data_lake_store_file.go)\<close>

record dataLakeStoreFileId =
  storageAccountName :: string
  filePath :: string

definition parseDataLakeStoreFileId :: "'w provider \<Rightarrow> string \<Rightarrow> string \<Rightarrow> error + dataLakeStoreFileId" where
  "parseDataLakeStoreFileId p input suffix =
     (case urlParse p (''https://'' @ input) of
        Inl err \<Rightarrow> Inl (Errorf ''Error parsing %q as URI: %+v'' [input] (Some err))
      | Inr uri \<Rightarrow>
          (let replacement = ''.'' @ suffix;
               accountName = ReplaceAll (url_Host uri) replacement []
           in Inr \<lparr>storageAccountName = accountName, filePath = url_Path uri\<rparr>))"

definition resourceArmDataLakeStoreFileRead :: "'w provider \<Rightarrow> 'w state \<Rightarrow> 'w state \<times> outcome" where
  "resourceArmDataLakeStoreFileRead p s =
     (let client = dataLakeStoreFilesClient (meta p) in
      case parseDataLakeStoreFileId p (rd_Id (rd s)) (AdlsFileSystemDNSSuffix client) of
        Inl err \<Rightarrow> (s, ReturnErr err)
      | Inr fid \<Rightarrow>
          (case invoke GET StopContext [storageAccountName fid, filePath fid] fsr_Response (\<lambda>r. None)
                  (fs_GetFileStatus client StopContext (storageAccountName fid) (filePath fid) (Some True)) s of
             ((resp, err), s1) \<Rightarrow>
               if err \<noteq> None then
                 (if ResponseWasNotFound (fsr_Response resp) then (SetId [] s1, ReturnNil)
                  else (s1, ReturnErr (Errorf
                    ''Error making Read request on Azure Data Lake Store File %q (Account %q): %+v''
                    [filePath fid, storageAccountName fid] err)))
               else
                 (dSet0 ''remote_file_path'' (VString (filePath fid))
                    (dSet0 ''account_name'' (VString (storageAccountName fid)) s1),
                  ReturnNil)))"

text \<open>
  Create. The check for an existing file is commented out in the source ("TODO:
  Requiring import support once the ID's have been sorted"): the function goes from
  reading its arguments to reading the local file. The identifier is composed locally.
\<close>

definition resourceArmDataLakeStoreFileCreate :: "'w provider \<Rightarrow> 'w state \<Rightarrow> 'w state \<times> outcome" where
  "resourceArmDataLakeStoreFileCreate p s =
     (let client = dataLakeStoreFilesClient (meta p);
          accountName = getString (rd s) ''account_name'';
          remoteFilePath = getString (rd s) ''remote_file_path'';
          localFilePath = getString (rd s) ''local_file_path''
      in case osOpen p localFilePath of
           Inl err \<Rightarrow> (s, ReturnErr (Errorf ''error opening file %q: %+v'' [localFilePath] (Some err)))
         | Inr file \<Rightarrow>
             (case ioutilReadAll p file of
                Inl err \<Rightarrow> (s, ReturnErr err)
              | Inr fileContents \<Rightarrow>
                  (let waitCtx = WithTimeout TimeoutCreate
                   in case invoke WRITE waitCtx [accountName, remoteFilePath] (\<lambda>r. r) (\<lambda>r. None)
                             (fs_Create client waitCtx accountName remoteFilePath fileContents
                                (Some False) ''CLOSE'') s of
                        ((resp, err), s1) \<Rightarrow>
                          if err \<noteq> None then
                            (s1, ReturnErr (Errorf
                               ''Error issuing create request for Data Lake Store File %q : %+v''
                               [remoteFilePath] err))
                          else
                            (let i = accountName @ ''.'' @ AdlsFileSystemDNSSuffix client @ remoteFilePath
                             in resourceArmDataLakeStoreFileRead p (SetId i s1)))))"


section \<open>Role assignment (resource_arm_role_assignment.go)\<close>

text \<open>
  \<open>resource.Retry(timeout, f)\<close> of the plugin framework calls \<open>f\<close> until it
  returns nil (success, the result is nil), an error that is not retryable (the result
  is that error), or the timeout elapses (the result is the last error, or the
  framework's timeout error when \<open>f\<close> was never called). The clock is not modelled:
  \<open>n\<close> is the number of calls that fit into the timeout.
\<close>

record RetryError =
  re_Err :: error
  re_Retryable :: bool

definition RetryableError :: "error \<Rightarrow> RetryError" where
  "RetryableError err = \<lparr>re_Err = err, re_Retryable = True\<rparr>"

definition timeoutError :: error where
  "timeoutError = LibError ''timeout while waiting for state to become success''"

fun retryLoop ::
  "nat \<Rightarrow> ('w state \<Rightarrow> RetryError option \<times> 'w state) \<Rightarrow> error option \<Rightarrow> 'w state \<Rightarrow> error option \<times> 'w state"
where
  "retryLoop 0 f lastErr s = (Some (case lastErr of None \<Rightarrow> timeoutError | Some e \<Rightarrow> e), s)"
| "retryLoop (Suc n) f lastErr s =
     (case f s of
        (None, s1) \<Rightarrow> (None, s1)
      | (Some rerr, s1) \<Rightarrow>
          (if re_Retryable rerr then retryLoop n f (Some (re_Err rerr)) s1
           else (Some (re_Err rerr), s1)))"

definition Retry ::
  "nat \<Rightarrow> ('w state \<Rightarrow> RetryError option \<times> 'w state) \<Rightarrow> 'w state \<Rightarrow> error option \<times> 'w state"
where
  "Retry n f s = retryLoop n f None s"

definition retryRoleAssignmentsClient ::
  "callCtx \<Rightarrow> string \<Rightarrow> string \<Rightarrow> RoleAssignmentCreateParameters \<Rightarrow> 'w provider \<Rightarrow>
   'w state \<Rightarrow> RetryError option \<times> 'w state"
where
  "retryRoleAssignmentsClient ctx scope name properties p s =
     (let client = roleAssignmentsClient (meta p)
      in case invoke WRITE ctx [scope, name] ra_Response ra_ID
                (ra_Create client ctx scope name properties) s of
           ((created, err), s1) \<Rightarrow>
             (case err of
                Some e \<Rightarrow> (Some (RetryableError e), s1)
              | None \<Rightarrow> (None, s1)))"

definition resourceArmRoleAssignmentRead :: "'w provider \<Rightarrow> 'w state \<Rightarrow> 'w state \<times> outcome" where
  "resourceArmRoleAssignmentRead p s =
     (let client = roleAssignmentsClient (meta p)
      in case invoke GET StopContext [rd_Id (rd s)] ra_Response ra_ID
                (ra_GetByID client StopContext (rd_Id (rd s))) s of
           ((resp, err), s1) \<Rightarrow>
             if err \<noteq> None then
               (if ResponseWasNotFound (ra_Response resp) then (SetId [] s1, ReturnNil)
                else (s1, ReturnErr (Errorf ''Error loading Role Assignment %q: %+v''
                        [rd_Id (rd s1)] err)))
             else
               (let s2 = dSet0 ''name'' (ptrString (ra_Name resp)) s1
                in case ra_RoleAssignmentPropertiesWithScope resp of
                     None \<Rightarrow> (s2, ReturnNil)
                   | Some props \<Rightarrow>
                       (dSet0 ''principal_id'' (ptrString (raps_PrincipalID props))
                          (dSet0 ''role_definition_id'' (ptrString (raps_RoleDefinitionID props))
                             (dSet0 ''scope'' (ptrString (raps_Scope props)) s2)),
                        ReturnNil)))"

text \<open>
  The first part of Create: the role definition identifier, from
  \<open>role_definition_id\<close>, or looked up by \<open>role_definition_name\<close> with a LIST call.
  \<open>Inl\<close> is the outcome Create ends with when there is none.
\<close>

definition resolveRoleDefinitionId :: "'w provider \<Rightarrow> 'w state \<Rightarrow> (outcome + string) \<times> 'w state" where
  "resolveRoleDefinitionId p s =
     (let roleDefinitionsClient = roleDefinitionsClient (meta p) in
      case dGetOk (rd s) ''role_definition_id'' of
        Some v \<Rightarrow> (Inr (getString (rd s) ''role_definition_id''), s)
      | None \<Rightarrow>
          (case dGetOk (rd s) ''role_definition_name'' of
             Some v \<Rightarrow>
               (let roleName = getString (rd s) ''role_definition_name'';
                    filter = ''roleName eq '' @ [CHR 0x27] @ roleName @ [CHR 0x27]
                in case invoke LIST StopContext [[], filter] (\<lambda>r. None) (\<lambda>r. None)
                          (rdef_List roleDefinitionsClient StopContext [] filter) s of
                     ((roleDefinitions, err), s1) \<Rightarrow>
                       if err \<noteq> None then
                         (Inl (ReturnErr (Errorf ''Error loading Role Definition List: %+v'' [] err)), s1)
                       else
                         (case roleDefinitions of
                            [roleDefinition] \<Rightarrow>
                              (case rdef_ID roleDefinition of
                                 None \<Rightarrow> (Inl (GoPanic nilDeref), s1)
                               | Some i \<Rightarrow> (Inr i, s1))
                          | _ \<Rightarrow>
                              (Inl (ReturnErr (Errorf
                                 (''Error loading Role Definition List: could not find role '' @ [CHR 0x27] @
                                    ''%s'' @ [CHR 0x27])
                                 [roleName] None)), s1)))
           | None \<Rightarrow>
               (Inl (ReturnErr (Errorf
                  ''Error: either role_definition_id or role_definition_name needs to be set'' [] None)),
                s)))"

definition resourceArmRoleAssignmentCreate :: "'w provider \<Rightarrow> 'w state \<Rightarrow> 'w state \<times> outcome" where
  "resourceArmRoleAssignmentCreate p s =
     (let client = roleAssignmentsClient (meta p);
          name = getString (rd s) ''name'';
          scope = getString (rd s) ''scope''
      in case resolveRoleDefinitionId p s of
           (Inl out, s1) \<Rightarrow> (s1, out)
         | (Inr roleDefinitionId, s1) \<Rightarrow>
             (let s2 = dSet0 ''role_definition_id'' (VString roleDefinitionId) s1;
                  principalId = getString (rd s2) ''principal_id''
              in case (if name \<noteq> [] then
                         (case invoke GET StopContext [scope, name] ra_Response ra_ID
                                 (ra_Get client StopContext scope name) s2 of
                            ((resp, err), s3) \<Rightarrow>
                              if err \<noteq> None \<and> \<not> ResponseWasNotFound (ra_Response resp) then
                                (s3, Inl (ReturnErr (Errorf
                                   ''Error checking for the existence of Role Assignment %q: %+v''
                                   [name] err)))
                              else (case ra_ID resp of
                                      Some i \<Rightarrow> (s3, Inl (ReturnErr
                                        (ImportAsExistsError ''azurerm_role_assignment'' i)))
                                    | None \<Rightarrow> (s3, Inr name)))
                       else
                         (case GenerateUUID p (world s2) of
                            ((uuid, err), w1) \<Rightarrow>
                              if err \<noteq> None then
                                (s2\<lparr>world := w1\<rparr>, Inl (ReturnErr (Errorf
                                   ''Error generating UUID for Role Assignment: %+v'' [] err)))
                              else (s2\<lparr>world := w1\<rparr>, Inr uuid))) of
                   (s3, Inl out) \<Rightarrow> (s3, out)
                 | (s3, Inr name1) \<Rightarrow>
                     (let properties =
                            \<lparr>racp_RoleAssignmentProperties = Some
                               \<lparr>rap_RoleDefinitionID = Some roleDefinitionId,
                                rap_PrincipalID = Some principalId\<rparr>\<rparr>;
                          waitCtx = WithTimeout TimeoutCreate
                      in case Retry (retryAttempts p TimeoutCreate)
                                (retryRoleAssignmentsClient waitCtx scope name1 properties p) s3 of
                           (err, s4) \<Rightarrow>
                             (case err of
                                Some e \<Rightarrow> (s4, ReturnErr e)
                              | None \<Rightarrow>
                                  (case invoke GET StopContext [scope, name1] ra_Response ra_ID
                                          (ra_Get client StopContext scope name1) s4 of
                                     ((read, err2), s5) \<Rightarrow>
                                       (case err2 of
                                          Some e \<Rightarrow> (s5, ReturnErr e)
                                        | None \<Rightarrow>
                                            (case ra_ID read of
                                               None \<Rightarrow> (s5, ReturnErr (Errorf
                                                 ''Cannot read Role Assignment ID for %q (Scope %q)''
                                                 [name1, scope] None))
                                             | Some i \<Rightarrow>
                                                 resourceArmRoleAssignmentRead p (SetId i s5))))))))"


section \<open>Log analytics solution (resource_arm_log_analytics_solution.go)\<close>

definition expandAzureRmLogAnalyticsSolutionPlan :: "ResourceData \<Rightarrow> string + SolutionPlan" where
  "expandAzureRmLogAnalyticsSolutionPlan d =
     (case getList d ''plan'' of
        [] \<Rightarrow> Inl indexRange
      | p0 # _ \<Rightarrow>
          (case p0 of
             VMap plan \<Rightarrow>
               (case asString (map_of plan ''name'') of
                  None \<Rightarrow> Inl badAssert
                | Some name \<Rightarrow>
                    (case asString (map_of plan ''publisher'') of
                       None \<Rightarrow> Inl badAssert
                     | Some publisher \<Rightarrow>
                         (case asString (map_of plan ''promotion_code'') of
                            None \<Rightarrow> Inl badAssert
                          | Some promotionCode \<Rightarrow>
                              (case asString (map_of plan ''product'') of
                                 None \<Rightarrow> Inl badAssert
                               | Some product \<Rightarrow>
                                   Inr \<lparr>sp_Name = Some name, sp_Publisher = Some publisher,
                                        sp_PromotionCode = Some promotionCode,
                                        sp_Product = Some product\<rparr>))))
           | _ \<Rightarrow> Inl badAssert))"

definition flattenAzureRmLogAnalyticsSolutionPlan :: "SolutionPlan \<Rightarrow> string + val list" where
  "flattenAzureRmLogAnalyticsSolutionPlan plan =
     (case sp_Name plan of
        None \<Rightarrow> Inl nilDeref
      | Some name \<Rightarrow>
          (case sp_Product plan of
             None \<Rightarrow> Inl nilDeref
           | Some product \<Rightarrow>
               (case sp_PromotionCode plan of
                  None \<Rightarrow> Inl nilDeref
                | Some promotionCode \<Rightarrow>
                    (case sp_Publisher plan of
                       None \<Rightarrow> Inl nilDeref
                     | Some publisher \<Rightarrow>
                         Inr [VMap (mapAssign (mapAssign (mapAssign (mapAssign []
                                      ''name'' (VString name))
                                      ''product'' (VString product))
                                      ''promotion_code'' (VString promotionCode))
                                      ''publisher'' (VString publisher))]))))"

text \<open>
  \<open>fmt.Sprintf("%s(%s)", solutionName, workspaceName)\<close>, the name Create sends.
\<close>

definition solutionResourceName :: "string \<Rightarrow> string \<Rightarrow> string" where
  "solutionResourceName solutionName workspaceName = solutionName @ ''('' @ workspaceName @ '')''"

text \<open>
  The error Read returns for a name that is not in the expected format. The source
  prints the pointer \<open>resp.Name\<close> with \<open>%v\<close>; the address is not modelled.
\<close>

definition solutionNameFormatError :: error where
  "solutionNameFormatError =
     Errorf (''Error making Read request on AzureRM Log Analytics solutions '' @ [CHR 0x27] @ ''%v'' @
               [CHR 0x27] @ '': isn'' @ [CHR 0x27] @ ''t in expected format '' @ [CHR 0x27] @
               ''Solution(WorkspaceName)'' @ [CHR 0x27]) [] None"

text \<open>
  The part of Read that reverses the mapping of the name: it sets \<open>solution_name\<close>
  and \<open>workspace_name\<close> from a name that contains \<open>(\<close> and splits at \<open>(\<close> into two
  parts; \<open>None\<close> stands for the two \<open>else\<close> branches, where Read returns the format
  error.
\<close>

definition setSolutionNames :: "string option \<Rightarrow> 'w state \<Rightarrow> 'w state option" where
  "setSolutionNames respName s =
     (case respName of
        None \<Rightarrow> None
      | Some name \<Rightarrow>
          (if Contains name ''('' then
             (case Split name ''('' of
                [part0, part1] \<Rightarrow>
                  (let s1 = dSet0 ''solution_name'' (VString part0) s;
                       workspaceName0 = TrimPrefix part1 ''('';
                       workspaceName = TrimSuffix workspaceName0 '')''
                   in Some (dSet0 ''workspace_name'' (VString workspaceName) s1))
              | _ \<Rightarrow> None)
           else None))"

definition resourceArmLogAnalyticsSolutionRead :: "'w provider \<Rightarrow> 'w state \<Rightarrow> 'w state \<times> outcome" where
  "resourceArmLogAnalyticsSolutionRead p s =
     (let client = solutionsClient (meta p) in
      case parseAzureResourceID p (rd_Id (rd s)) of
        Inl err \<Rightarrow> (s, ReturnErr err)
      | Inr rid \<Rightarrow>
          (let resGroup = ResourceGroup rid;
               name = pathOf rid ''solutions''
           in case invoke GET StopContext [resGroup, name] sol_Response sol_ID
                     (sol_Get client StopContext resGroup name) s of
                ((resp, err), s1) \<Rightarrow>
                  if err \<noteq> None then
                    (if ResponseWasNotFound (sol_Response resp) then (SetId [] s1, ReturnNil)
                     else (s1, ReturnErr (Errorf
                       (''Error making Read request on AzureRM Log Analytics solutions '' @ [CHR 0x27] @
                          ''%s'' @ [CHR 0x27] @ '': %+v'') [name] err)))
                  else
                    (case sol_Plan resp of
                       None \<Rightarrow> (s1, ReturnErr (Errorf
                         (''Error making Read request on AzureRM Log Analytics solutions '' @ [CHR 0x27] @
                            ''%s'' @ [CHR 0x27] @ '': Plan was nil'') [name] None))
                     | Some plan \<Rightarrow>
                         (let s2 = dSet0 ''resource_group_name'' (VString resGroup) s1;
                              s3 = (case sol_Location resp of
                                      None \<Rightarrow> s2
                                    | Some location \<Rightarrow>
                                        dSet0 ''location'' (VString (azureRMNormalizeLocation p location)) s2)
                          in case setSolutionNames (sol_Name resp) s3 of
                               None \<Rightarrow> (s3, ReturnErr solutionNameFormatError)
                             | Some s5 \<Rightarrow>
                                 (let s6 = (case sol_Properties resp of
                                              None \<Rightarrow> s5
                                            | Some props \<Rightarrow>
                                                dSet0 ''workspace_resource_id''
                                                  (ptrString (sop_WorkspaceResourceID props)) s5)
                                  in case flattenAzureRmLogAnalyticsSolutionPlan plan of
                                       Inl pn \<Rightarrow> (s6, GoPanic pn)
                                     | Inr planFlat \<Rightarrow> (dSet0 ''plan'' (VList planFlat) s6, ReturnNil))))))"

definition resourceArmLogAnalyticsSolutionCreateUpdate :: "'w provider \<Rightarrow> 'w state \<Rightarrow> 'w state \<times> outcome" where
  "resourceArmLogAnalyticsSolutionCreateUpdate p s =
     (let client = solutionsClient (meta p);
          solutionName = getString (rd s) ''solution_name'';
          workspaceName = getString (rd s) ''workspace_name'';
          name = solutionResourceName solutionName workspaceName;
          resGroup = getString (rd s) ''resource_group_name''
      in case (if rd_IsNewResource (rd s) then
                 (case invoke GET StopContext [resGroup, name] sol_Response sol_ID
                         (sol_Get client StopContext resGroup name) s of
                    ((resp, err), s1) \<Rightarrow>
                      if err \<noteq> None \<and> \<not> ResponseWasNotFound (sol_Response resp) then
                        (s1, Some (ReturnErr (Errorf
                           ''Error checking for the existence of Log Analytics Solution %q (Workspace %q / Resource Group %q): %+v''
                           [solutionName, workspaceName, resGroup] err)))
                      else (case sol_ID resp of
                              Some i \<Rightarrow> (s1, Some (ReturnErr
                                (ImportAsExistsError ''azurerm_log_analytics_solution'' i)))
                            | None \<Rightarrow> (s1, None)))
               else (s, None)) of
           (s1, Some out) \<Rightarrow> (s1, out)
         | (s1, None) \<Rightarrow>
             (case expandAzureRmLogAnalyticsSolutionPlan (rd s1) of
                Inl pn \<Rightarrow> (s1, GoPanic pn)
              | Inr solutionPlan0 \<Rightarrow>
                  (let solutionPlan = solutionPlan0\<lparr>sp_Name := Some name\<rparr>;
                       location = azureRMNormalizeLocation p (getString (rd s1) ''location'');
                       workspaceID = getString (rd s1) ''workspace_resource_id'';
                       parameters =
                         \<lparr>sol_Response = None, sol_ID = None, sol_Name = Some name,
                          sol_Location = Some location, sol_Plan = Some solutionPlan,
                          sol_Properties = Some \<lparr>sop_WorkspaceResourceID = Some workspaceID\<rparr>\<rparr>;
                       waitCtx = WithTimeout (TimeoutForCreateUpdate p (rd s1))
                   in case invoke WRITE waitCtx [resGroup, name] fut_Response (\<lambda>r. None)
                             (sol_CreateOrUpdate client waitCtx resGroup name parameters) s1 of
                        ((res, err), s2) \<Rightarrow>
                          (case (case err of
                                   None \<Rightarrow> None
                                 | Some e \<Rightarrow>
                                     (case fut_Response res of
                                        None \<Rightarrow> Some (GoPanic nilDeref)
                                      | Some r \<Rightarrow>
                                          (if StatusCode r \<noteq> 201 then Some (ReturnErr e) else None))) of
                             Some out \<Rightarrow> (s2, out)
                           | None \<Rightarrow>
                               (case invoke GET StopContext [resGroup, name] sol_Response sol_ID
                                       (sol_Get client StopContext resGroup name) s2 of
                                  ((solution, err2), s3) \<Rightarrow>
                                    if err2 \<noteq> None then
                                      (s3, ReturnErr (Errorf
                                         ''Error retrieving Log Analytics Solution %q (Resource Group %q): %+v''
                                         [name, resGroup] err2))
                                    else
                                      (case sol_ID solution of
                                         None \<Rightarrow> (s3, ReturnErr (Errorf
                                           ''Cannot read Log Analytics Solution %q (Resource Group %q) ID''
                                           [name, resGroup] None))
                                       | Some i \<Rightarrow>
                                           resourceArmLogAnalyticsSolutionRead p (SetId i s3)))))))"


section \<open>Key vault key (resource_arm_key_vault_key.go)\<close>

fun expandKeyOptionsLoop :: "val list \<Rightarrow> string + string list" where
  "expandKeyOptionsLoop [] = Inr []"
| "expandKeyOptionsLoop (option # rest) =
     (case option of
        VString v \<Rightarrow>
          (case expandKeyOptionsLoop rest of
             Inl pn \<Rightarrow> Inl pn
           | Inr results \<Rightarrow> Inr (v # results))
      | _ \<Rightarrow> Inl badAssert)"

definition expandKeyVaultKeyOptions :: "ResourceData \<Rightarrow> string + string list option" where
  "expandKeyVaultKeyOptions d =
     (case expandKeyOptionsLoop (getList d ''key_opts'') of
        Inl pn \<Rightarrow> Inl pn
      | Inr results \<Rightarrow> Inr (Some results))"

definition flattenKeyVaultKeyOptions :: "string list option \<Rightarrow> string + val list" where
  "flattenKeyVaultKeyOptions input =
     (case input of
        None \<Rightarrow> Inl nilDeref
      | Some options \<Rightarrow> Inr (map VString options))"

text \<open>The identifier a key bundle carries: \<open>resp.Key.Kid\<close>, when both are there.\<close>

definition keyKid :: "KeyBundle \<Rightarrow> string option" where
  "keyKid resp = (case kb_Key resp of None \<Rightarrow> None | Some key \<Rightarrow> jwk_Kid key)"

definition resourceArmKeyVaultKeyRead :: "'w provider \<Rightarrow> 'w state \<Rightarrow> 'w state \<times> outcome" where
  "resourceArmKeyVaultKeyRead p s =
     (let client = keyVaultManagementClient (meta p) in
      case parseKeyVaultChildID p (rd_Id (rd s)) of
        Inl err \<Rightarrow> (s, ReturnErr err)
      | Inr kid \<Rightarrow>
          (case invoke GET StopContext [KeyVaultBaseUrl kid, kvc_Name kid, []] kb_Response keyKid
                  (kv_GetKey client StopContext (KeyVaultBaseUrl kid) (kvc_Name kid) []) s of
             ((resp, err), s1) \<Rightarrow>
               (case err of
                  Some e \<Rightarrow>
                    (if ResponseWasNotFound (kb_Response resp) then (SetId [] s1, ReturnNil)
                     else (s1, ReturnErr e))
                | None \<Rightarrow>
                    (let s2 = dSet0 ''name'' (VString (kvc_Name kid)) s1;
                         s3 = dSet0 ''vault_uri'' (VString (KeyVaultBaseUrl kid)) s2
                     in case (case kb_Key resp of
                                None \<Rightarrow> (s3, None)
                              | Some key \<Rightarrow>
                                  (let s4 = dSet0 ''key_type'' (VString (jwk_Kty key)) s3 in
                                   case flattenKeyVaultKeyOptions (jwk_KeyOps key) of
                                     Inl pn \<Rightarrow> (s4, Some (GoPanic pn))
                                   | Inr options \<Rightarrow>
                                       (case dSet ''key_opts'' (VList options) s4 of
                                          (s5, Some e) \<Rightarrow> (s5, Some (ReturnErr e))
                                        | (s5, None) \<Rightarrow>
                                            (dSet0 ''e'' (ptrString (jwk_E key))
                                               (dSet0 ''n'' (ptrString (jwk_N key)) s5), None)))) of
                          (s6, Some out) \<Rightarrow> (s6, out)
                        | (s6, None) \<Rightarrow>
                            (let s7 = dSet0 ''version'' (VString (kvc_Version kid)) s6
                             in (flattenAndSetTags p (kb_Tags resp) s7, ReturnNil))))))"

definition resourceArmKeyVaultKeyCreate :: "'w provider \<Rightarrow> 'w state \<Rightarrow> 'w state \<times> outcome" where
  "resourceArmKeyVaultKeyCreate p s =
     (let client = keyVaultManagementClient (meta p);
          name = getString (rd s) ''name'';
          keyVaultBaseUrl = getString (rd s) ''vault_uri''
      in case invoke GET StopContext [keyVaultBaseUrl, name, []] kb_Response keyKid
                (kv_GetKey client StopContext keyVaultBaseUrl name []) s of
           ((resp, err), s1) \<Rightarrow>
             if err \<noteq> None \<and> \<not> ResponseWasNotFound (kb_Response resp) then
               (s1, ReturnErr (Errorf
                  ''Error checking for the existence of Key Vault Key %q (Key Vault %q): %+v''
                  [name, keyVaultBaseUrl] err))
             else
               (case keyKid resp of
                  Some i \<Rightarrow> (s1, ReturnErr (ImportAsExistsError ''azurerm_key_vault_key'' i))
                | None \<Rightarrow>
                    (let keyType = getString (rd s1) ''key_type'' in
                     case expandKeyVaultKeyOptions (rd s1) of
                       Inl pn \<Rightarrow> (s1, GoPanic pn)
                     | Inr keyOptions \<Rightarrow>
                         (let tags = getMap (rd s1) ''tags'';
                              parameters =
                                \<lparr>kcp_Kty = keyType,
                                 kcp_KeySize = Some (toInt32 (getInt (rd s1) ''key_size'')),
                                 kcp_KeyOps = keyOptions,
                                 kcp_KeyAttributes = Some \<lparr>ka_Enabled = Some True\<rparr>,
                                 kcp_Tags = expandTags p tags\<rparr>;
                              waitCtx = WithTimeout TimeoutCreate
                          in case invoke WRITE waitCtx [keyVaultBaseUrl, name] kb_Response keyKid
                                    (kv_CreateKey client waitCtx keyVaultBaseUrl name parameters) s1 of
                               ((created, err1), s2) \<Rightarrow>
                                 if err1 \<noteq> None then
                                   (s2, ReturnErr (Errorf ''Error Creating Key: %+v'' [] err1))
                                 else
                                   (case invoke GET StopContext [keyVaultBaseUrl, name, []] kb_Response keyKid
                                           (kv_GetKey client StopContext keyVaultBaseUrl name []) s2 of
                                      ((read, err2), s3) \<Rightarrow>
                                        (case err2 of
                                           Some e \<Rightarrow> (s3, ReturnErr e)
                                         | None \<Rightarrow>
                                             (case keyKid read of
                                                None \<Rightarrow> (s3, GoPanic nilDeref)
                                              | Some i \<Rightarrow>
                                                  resourceArmKeyVaultKeyRead p (SetId i s3))))))))"

definition resourceArmKeyVaultKeyUpdate :: "'w provider \<Rightarrow> 'w state \<Rightarrow> 'w state \<times> outcome" where
  "resourceArmKeyVaultKeyUpdate p s =
     (let client = keyVaultManagementClient (meta p) in
      case parseKeyVaultChildID p (rd_Id (rd s)) of
        Inl err \<Rightarrow> (s, ReturnErr err)
      | Inr kid \<Rightarrow>
          (case expandKeyVaultKeyOptions (rd s) of
             Inl pn \<Rightarrow> (s, GoPanic pn)
           | Inr keyOptions \<Rightarrow>
               (let tags = getMap (rd s) ''tags'';
                    parameters =
                      \<lparr>kup_KeyOps = keyOptions,
                       kup_KeyAttributes = Some \<lparr>ka_Enabled = Some True\<rparr>,
                       kup_Tags = expandTags p tags\<rparr>;
                    waitCtx = WithTimeout TimeoutUpdate
                in case invoke WRITE waitCtx [KeyVaultBaseUrl kid, kvc_Name kid, kvc_Version kid]
                          kb_Response keyKid
                          (kv_UpdateKey client waitCtx (KeyVaultBaseUrl kid) (kvc_Name kid)
                             (kvc_Version kid) parameters) s of
                     ((updated, err), s1) \<Rightarrow>
                       (case err of
                          Some e \<Rightarrow> (s1, ReturnErr e)
                        | None \<Rightarrow> resourceArmKeyVaultKeyRead p s1))))"


section \<open>DNS AAAA record (resource_arm_dns_aaaa_record.go)\<close>

fun flattenAaaaLoop :: "AaaaRecord list \<Rightarrow> string list" where
  "flattenAaaaLoop [] = []"
| "flattenAaaaLoop (record # rest) =
     (case Ipv6Address record of
        None \<Rightarrow> flattenAaaaLoop rest
      | Some ipv6 \<Rightarrow> ipv6 # flattenAaaaLoop rest)"

definition flattenAzureRmDnsAaaaRecords :: "AaaaRecord list option \<Rightarrow> string list" where
  "flattenAzureRmDnsAaaaRecords records =
     (case records of None \<Rightarrow> [] | Some rs \<Rightarrow> flattenAaaaLoop rs)"

fun expandAaaaLoop :: "val list \<Rightarrow> string + AaaaRecord list" where
  "expandAaaaLoop [] = Inr []"
| "expandAaaaLoop (v # rest) =
     (case v of
        VString ipv6 \<Rightarrow>
          (case expandAaaaLoop rest of
             Inl pn \<Rightarrow> Inl pn
           | Inr records \<Rightarrow> Inr (\<lparr>Ipv6Address = Some ipv6\<rparr> # records))
      | _ \<Rightarrow> Inl badAssert)"

text \<open>
  \<open>expandAzureRmDnsAaaaRecords\<close> returns its records and an error that is always
  nil.
\<close>

definition expandAzureRmDnsAaaaRecords :: "ResourceData \<Rightarrow> string + (AaaaRecord list \<times> error option)" where
  "expandAzureRmDnsAaaaRecords d =
     (let recordStrings = getSetList d ''records'' in
      case expandAaaaLoop recordStrings of
        Inl pn \<Rightarrow> Inl pn
      | Inr records \<Rightarrow> Inr (records, None))"

definition resourceArmDnsAaaaRecordRead :: "'w provider \<Rightarrow> 'w state \<Rightarrow> 'w state \<times> outcome" where
  "resourceArmDnsAaaaRecordRead p s =
     (let dnsClient = dnsClient (meta p) in
      case parseAzureResourceID p (rd_Id (rd s)) of
        Inl err \<Rightarrow> (s, ReturnErr err)
      | Inr rid \<Rightarrow>
          (let resGroup = ResourceGroup rid;
               name = pathOf rid ''AAAA'';
               zoneName = pathOf rid ''dnszones''
           in case invoke GET StopContext [resGroup, zoneName, name, ''AAAA''] rs_Response rs_ID
                     (rs_Get dnsClient StopContext resGroup zoneName name ''AAAA'') s of
                ((resp, err), s1) \<Rightarrow>
                  if err \<noteq> None then
                    (if ResponseWasNotFound (rs_Response resp) then (SetId [] s1, ReturnNil)
                     else (s1, ReturnErr (Errorf ''Error reading DNS AAAA record %s: %v'' [name] err)))
                  else
                    (let s2 = dSet0 ''name'' (VString name) s1;
                         s3 = dSet0 ''resource_group_name'' (VString resGroup) s2;
                         s4 = dSet0 ''zone_name'' (VString zoneName) s3
                     in case rs_RecordSetProperties resp of
                          None \<Rightarrow> (s4, GoPanic nilDeref)
                        | Some props \<Rightarrow>
                            (let s5 = dSet0 ''ttl'' (ptrInt64 (rsp_TTL props)) s4
                             in case dSet ''records''
                                       (VList (map VString (flattenAzureRmDnsAaaaRecords (rsp_AaaaRecords props))))
                                       s5 of
                                  (s6, Some e) \<Rightarrow> (s6, ReturnErr e)
                                | (s6, None) \<Rightarrow>
                                    (flattenAndSetTags p (rsp_Metadata props) s6, ReturnNil)))))"

text \<open>
  CreateOrUpdate stores the identifier that the write call returns; there is no GET
  between the write and Read.
\<close>

definition resourceArmDnsAaaaRecordCreateOrUpdate :: "'w provider \<Rightarrow> 'w state \<Rightarrow> 'w state \<times> outcome" where
  "resourceArmDnsAaaaRecordCreateOrUpdate p s =
     (let client = dnsClient (meta p);
          name = getString (rd s) ''name'';
          resGroup = getString (rd s) ''resource_group_name'';
          zoneName = getString (rd s) ''zone_name''
      in case (if rd_IsNewResource (rd s) then
                 (case invoke GET StopContext [resGroup, zoneName, name, ''AAAA''] rs_Response rs_ID
                         (rs_Get client StopContext resGroup zoneName name ''AAAA'') s of
                    ((resp, err), s1) \<Rightarrow>
                      if err \<noteq> None \<and> \<not> ResponseWasNotFound (rs_Response resp) then
                        (s1, Some (ReturnErr (Errorf
                           ''Error checking for the existence of DNS AAAA Record %q (Zone %q / Resource Group %q): %+v''
                           [name, zoneName, resGroup] err)))
                      else (case rs_ID resp of
                              Some i \<Rightarrow> (s1, Some (ReturnErr
                                (ImportAsExistsError ''azurerm_dns_aaaa_record'' i)))
                            | None \<Rightarrow> (s1, None)))
               else (s, None)) of
           (s1, Some out) \<Rightarrow> (s1, out)
         | (s1, None) \<Rightarrow>
             (let ttl = int64OfInt (getInt (rd s1) ''ttl'');
                  tags = getMap (rd s1) ''tags''
              in case expandAzureRmDnsAaaaRecords (rd s1) of
                   Inl pn \<Rightarrow> (s1, GoPanic pn)
                 | Inr (records, experr) \<Rightarrow>
                     (case experr of
                        Some e \<Rightarrow> (s1, ReturnErr e)
                      | None \<Rightarrow>
                          (let parameters =
                                 \<lparr>rs_Response = None, rs_ID = None, rs_Name = Some name,
                                  rs_RecordSetProperties = Some
                                    \<lparr>rsp_Metadata = expandTags p tags,
                                     rsp_TTL = Some ttl,
                                     rsp_AaaaRecords = Some records\<rparr>\<rparr>;
                               eTag = [];
                               ifNoneMatch = [];
                               waitCtx = WithTimeout (TimeoutForCreateUpdate p (rd s1))
                           in case invoke WRITE waitCtx [resGroup, zoneName, name, ''AAAA''] rs_Response rs_ID
                                     (rs_CreateOrUpdate client waitCtx resGroup zoneName name ''AAAA''
                                        parameters eTag ifNoneMatch) s1 of
                                ((resp, err), s2) \<Rightarrow>
                                  (case err of
                                     Some e \<Rightarrow> (s2, ReturnErr e)
                                   | None \<Rightarrow>
                                       (case rs_ID resp of
                                          None \<Rightarrow> (s2, ReturnErr (Errorf
                                            ''Cannot read DNS AAAA Record %s (resource group %s) ID''
                                            [name, resGroup] None))
                                        | Some i \<Rightarrow>
                                            resourceArmDnsAaaaRecordRead p (SetId i s2)))))))"


section \<open>The provider's resources\<close>

text \<open>
  The adapters of the source files, and the functions each registers in its
  \<open>schema.Resource\<close> as \<open>Create\<close>, \<open>Read\<close>, \<open>Update\<close> and \<open>Delete\<close>.
  The data lake store file and the role assignment register no \<open>Update\<close>.
\<close>

datatype adapter =
    SchedulerJobCollection
  | EventHubConsumerGroup
  | TrafficManagerProfile
  | MetricAlertRule
  | DataLakeStoreFile
  | RoleAssignment
  | LogAnalyticsSolution
  | KeyVaultKey
  | DnsAaaaRecord

fun resourceCreate :: "adapter \<Rightarrow> 'w provider \<Rightarrow> 'w state \<Rightarrow> 'w state \<times> outcome" where
  "resourceCreate SchedulerJobCollection = resourceArmSchedulerJobCollectionCreateUpdate"
| "resourceCreate EventHubConsumerGroup = resourceArmEventHubConsumerGroupCreateUpdate"
| "resourceCreate TrafficManagerProfile = resourceArmTrafficManagerProfileCreateUpdate"
| "resourceCreate MetricAlertRule = resourceArmMetricAlertRuleCreateUpdate"
| "resourceCreate DataLakeStoreFile = resourceArmDataLakeStoreFileCreate"
| "resourceCreate RoleAssignment = resourceArmRoleAssignmentCreate"
| "resourceCreate LogAnalyticsSolution = resourceArmLogAnalyticsSolutionCreateUpdate"
| "resourceCreate KeyVaultKey = resourceArmKeyVaultKeyCreate"
| "resourceCreate DnsAaaaRecord = resourceArmDnsAaaaRecordCreateOrUpdate"


fun resourceUpdate :: "adapter \<Rightarrow> ('w provider \<Rightarrow> 'w state \<Rightarrow> 'w state \<times> outcome) option" where
  "resourceUpdate SchedulerJobCollection = Some resourceArmSchedulerJobCollectionCreateUpdate"
| "resourceUpdate EventHubConsumerGroup = Some resourceArmEventHubConsumerGroupCreateUpdate"
| "resourceUpdate TrafficManagerProfile = Some resourceArmTrafficManagerProfileCreateUpdate"
| "resourceUpdate MetricAlertRule = Some resourceArmMetricAlertRuleCreateUpdate"
| "resourceUpdate DataLakeStoreFile = None"
| "resourceUpdate RoleAssignment = None"
| "resourceUpdate LogAnalyticsSolution = Some resourceArmLogAnalyticsSolutionCreateUpdate"
| "resourceUpdate KeyVaultKey = Some resourceArmKeyVaultKeyUpdate"
| "resourceUpdate DnsAaaaRecord = Some resourceArmDnsAaaaRecordCreateOrUpdate"


section \<open>Load balancer lookup helpers (azurerm/loadbalancer.go)\<close>

text \<open>
  The SDK structs, with the fields the helpers read. A Go pointer field is an
  \<open>option\<close> (\<open>None\<close> is nil). \<open>network.LoadBalancer\<close> embeds
  \<open>*LoadBalancerPropertiesFormat\<close>, whose two collections are pointers to slices.
\<close>

record FrontendIPConfiguration =
  feip_Name :: "string option"
  feip_ID :: "string option"

record LoadBalancingRule =
  lbr_Name :: "string option"
  lbr_ID :: "string option"

record LoadBalancerPropertiesFormat =
  FrontendIPConfigurations :: "FrontendIPConfiguration list option"
  LoadBalancingRules :: "LoadBalancingRule list option"

record LoadBalancer =
  lb_LoadBalancerPropertiesFormat :: "LoadBalancerPropertiesFormat option"

text \<open>
  \<open>for i, feip := range *...FrontendIPConfigurations\<close>: the loop, with the index
  \<open>i\<close> of the element at the head of the remaining slice. The function returns
  \<open>&feip\<close>, a pointer to the loop's copy of the element: the model returns the element.
\<close>

fun rangeFrontendIPConfigurations ::
  "FrontendIPConfiguration list \<Rightarrow> string \<Rightarrow> int \<Rightarrow> FrontendIPConfiguration option \<times> int \<times> bool"
where
  "rangeFrontendIPConfigurations [] name i = (None, - 1, False)"
| "rangeFrontendIPConfigurations (feip # rest) name i =
     (if feip_Name feip \<noteq> None \<and> feip_Name feip = Some name then (Some feip, i, True)
      else rangeFrontendIPConfigurations rest name (i + 1))"

definition findLoadBalancerFrontEndIpConfigurationByName ::
  "LoadBalancer option \<Rightarrow> string \<Rightarrow> FrontendIPConfiguration option \<times> int \<times> bool"
where
  "findLoadBalancerFrontEndIpConfigurationByName lb name =
     (case lb of
        None \<Rightarrow> (None, - 1, False)
      | Some l \<Rightarrow>
          (case lb_LoadBalancerPropertiesFormat l of
             None \<Rightarrow> (None, - 1, False)
           | Some props \<Rightarrow>
               (case FrontendIPConfigurations props of
                  None \<Rightarrow> (None, - 1, False)
                | Some feips \<Rightarrow> rangeFrontendIPConfigurations feips name 0)))"

fun rangeLoadBalancingRules ::
  "LoadBalancingRule list \<Rightarrow> string \<Rightarrow> int \<Rightarrow> LoadBalancingRule option \<times> int \<times> bool"
where
  "rangeLoadBalancingRules [] name i = (None, - 1, False)"
| "rangeLoadBalancingRules (lbr # rest) name i =
     (if lbr_Name lbr \<noteq> None \<and> lbr_Name lbr = Some name then (Some lbr, i, True)
      else rangeLoadBalancingRules rest name (i + 1))"

definition findLoadBalancerRuleByName ::
  "LoadBalancer option \<Rightarrow> string \<Rightarrow> LoadBalancingRule option \<times> int \<times> bool"
where
  "findLoadBalancerRuleByName lb name =
     (case lb of
        None \<Rightarrow> (None, - 1, False)
      | Some l \<Rightarrow>
          (case lb_LoadBalancerPropertiesFormat l of
             None \<Rightarrow> (None, - 1, False)
           | Some props \<Rightarrow>
               (case LoadBalancingRules props of
                  None \<Rightarrow> (None, - 1, False)
                | Some rules \<Rightarrow> rangeLoadBalancingRules rules name 0)))"

text \<open>
  The collection a lookup ranges over: \<open>None\<close> when the load balancer, its properties
  or the collection pointer is nil.
\<close>

definition frontendCollection :: "LoadBalancer option \<Rightarrow> FrontendIPConfiguration list option" where
  "frontendCollection lb =
     (case lb of None \<Rightarrow> None
      | Some l \<Rightarrow> (case lb_LoadBalancerPropertiesFormat l of None \<Rightarrow> None
                  | Some props \<Rightarrow> FrontendIPConfigurations props))"

definition ruleCollection :: "LoadBalancer option \<Rightarrow> LoadBalancingRule list option" where
  "ruleCollection lb =
     (case lb of None \<Rightarrow> None
      | Some l \<Rightarrow> (case lb_LoadBalancerPropertiesFormat l of None \<Rightarrow> None
                  | Some props \<Rightarrow> LoadBalancingRules props))"

text \<open>
  What a correct lookup over \<open>xs\<close> returns, by the names \<open>nm\<close> of the elements:
  not found, with \<open>(nil, -1, false)\<close>, when no element carries the name; otherwise the
  first element that carries it, with its position.
\<close>

definition firstNamed :: "('a \<Rightarrow> string option) \<Rightarrow> 'a list \<Rightarrow> string \<Rightarrow> 'a option \<times> int \<times> bool \<Rightarrow> bool" where
  "firstNamed nm xs name r =
     (case r of (p, i, found) \<Rightarrow>
        found = (\<exists>x \<in> set xs. nm x = Some name) \<and>
        (if found
         then 0 \<le> i \<and> nat i < length xs \<and> p = Some (xs ! nat i) \<and> nm (xs ! nat i) = Some name \<and>
              (\<forall>j < nat i. nm (xs ! j) \<noteq> Some name)
         else p = None \<and> i = - 1))"

section \<open>What the operations promise, in terms of the log of remote calls\<close>

definition isErr :: "outcome \<Rightarrow> bool" where
  "isErr out = (case out of ReturnErr e \<Rightarrow> True | _ \<Rightarrow> False)"


definition hardFail :: "event \<Rightarrow> bool" where
  "hardFail e = (ev_failed e \<and> \<not> ev_notFound e)"

text \<open>
  \<open>sat Q x\<close>: the result \<open>x\<close> of running a piece of code has the property \<open>Q\<close>.
  The constant marks the goals of the rules that follow the code statement by
  statement.
\<close>

definition sat :: "('a \<Rightarrow> bool) \<Rightarrow> 'a \<Rightarrow> bool" where
  "sat Q x = Q x"


text \<open>
  Read, run from the state \<open>s\<close>: either it makes no remote call, returns an error and
  leaves the identifier alone (the identifier did not parse), or it makes one call, a
  GET, and then: when the GET reports not-found the identifier is cleared and the result
  is nil; when the GET fails otherwise the result is an error and the identifier is
  unchanged; when the GET succeeds the identifier is unchanged.
\<close>

definition readContract :: "'w state \<Rightarrow> 'w state \<times> outcome \<Rightarrow> bool" where
  "readContract s r =
     (case r of (s', out) \<Rightarrow>
        (calls s' = calls s \<and> rd_Id (rd s') = rd_Id (rd s) \<and> isErr out) \<or>
        (calls s' \<noteq> [] \<and> butlast (calls s') = calls s \<and> ev_verb (last (calls s')) = GET \<and>
           (if ev_failed (last (calls s'))
            then (if ev_notFound (last (calls s')) then rd_Id (rd s') = [] \<and> out = ReturnNil
                  else rd_Id (rd s') = rd_Id (rd s) \<and> isErr out)
            else rd_Id (rd s') = rd_Id (rd s))))"






definition nonList :: "event list \<Rightarrow> event list" where
  "nonList evs = filter (\<lambda>e. ev_verb e \<noteq> LIST) evs"




text \<open>
  \<open>precheckOk early nm r\<close>: the first remote call of the run (a lookup of the role
  definition by name aside) is a GET, so no write precedes it; when the result of that
  GET carries an identifier, it is the only call, so nothing is written, and the run
  ends with the import error for that identifier, or with the error of the check when
  the GET itself failed with something other than not-found. \<open>early\<close> allows a run
  that ends with an error before the pre-check.
\<close>

definition precheckOk :: "bool \<Rightarrow> string \<Rightarrow> 'w state \<times> outcome \<Rightarrow> bool" where
  "precheckOk early nm r =
     (case nonList (calls (fst r)) of
        [] \<Rightarrow> early \<and> snd r \<noteq> ReturnNil
      | g # rest \<Rightarrow> ev_verb g = GET \<and>
          (case ev_id g of
             None \<Rightarrow> True
           | Some i \<Rightarrow> rest = [] \<and>
               (if hardFail g then isErr (snd r) else snd r = ReturnErr (ImportAsExistsError nm i))))"

text \<open>
  The re-read of Create and Update. \<open>afterWrite\<close> is what the log holds after the
  first write call that succeeded, \<open>splitWrite\<close> gives that call as well. \<open>delegates Read i rest r\<close>: the result \<open>r\<close> is
  what \<open>Read\<close> returns from a state whose stored identifier is \<open>i\<close> and whose log
  is the log of \<open>r\<close> without its last calls \<open>rest\<close>.
\<close>

fun afterWrite :: "event list \<Rightarrow> event list option" where
  "afterWrite [] = None"
| "afterWrite (e # es) = (if ev_verb e = WRITE \<and> \<not> ev_failed e then Some es else afterWrite es)"


definition delegates ::
  "('w state \<Rightarrow> 'w state \<times> outcome) \<Rightarrow> string \<Rightarrow> event list \<Rightarrow> 'w state \<times> outcome \<Rightarrow> bool"
where
  "delegates Read i rest r = (\<exists>s2. rd_Id (rd s2) = i \<and> calls s2 @ rest = calls (fst r) \<and> Read s2 = r)"

text \<open>
  \<open>rereadOk chk Read id0 r\<close>: once a write call has succeeded, the next call is a GET;
  when that GET fails the run ends with an error and the identifier \<open>id0\<close> it started
  with; when it succeeds with an identifier, the run is Read from a state that stores
  that identifier; when it succeeds without one, the run ends there with the identifier
  unchanged, and with an error if the adapter checks for nil (\<open>chk\<close>).
\<close>

definition rereadOk ::
  "bool \<Rightarrow> ('w state \<Rightarrow> 'w state \<times> outcome) \<Rightarrow> string \<Rightarrow> 'w state \<times> outcome \<Rightarrow> bool"
where
  "rereadOk chk Read id0 r =
     (case afterWrite (calls (fst r)) of
        None \<Rightarrow> True
      | Some post \<Rightarrow>
          (case post of
             [] \<Rightarrow> False
           | g # rest \<Rightarrow> ev_verb g = GET \<and>
               (if ev_failed g then rest = [] \<and> isErr (snd r) \<and> rd_Id (rd (fst r)) = id0
                else (case ev_id g of
                        None \<Rightarrow> rest = [] \<and> rd_Id (rd (fst r)) = id0 \<and> (chk \<longrightarrow> isErr (snd r))
                      | Some i \<Rightarrow> delegates Read i rest r))))"



definition writes :: "'w state \<times> outcome \<Rightarrow> event list" where
  "writes r = filter (\<lambda>e. ev_verb e = WRITE) (calls (fst r))"

text \<open>
  What the adapters' Create functions are proved to do, together: the pre-check when
  \<open>pre\<close> holds, the re-read when \<open>rr\<close> holds, and at most one write call.
\<close>

definition createContract ::
  "bool \<Rightarrow> string \<Rightarrow> bool \<Rightarrow> bool \<Rightarrow> ('w state \<Rightarrow> 'w state \<times> outcome) \<Rightarrow> ResourceData \<Rightarrow>
   'w state \<times> outcome \<Rightarrow> bool"
where
  "createContract pre nm rr chk Read d r =
     ((pre \<longrightarrow> precheckOk False nm r) \<and> (rr \<longrightarrow> rereadOk chk Read (rd_Id d) r) \<and>
      length (writes r) \<le> 1)"

text \<open>
  The retried write of the role assignment: write calls under the context of the
  create timeout that all failed.
\<close>

definition failedWrites :: "callCtx \<Rightarrow> event list \<Rightarrow> bool" where
  "failedWrites cx ws = list_all (\<lambda>e. ev_verb e = WRITE \<and> ev_failed e \<and> ev_ctx e = cx) ws"

definition retryContract :: "nat \<Rightarrow> 'w state \<times> outcome \<Rightarrow> bool" where
  "retryContract n r =
     (length (writes r) \<le> n \<and>
      list_all (\<lambda>e. ev_ctx e = WithTimeout TimeoutCreate) (writes r) \<and>
      list_all ev_failed (butlast (writes r)) \<and>
      (writes r \<noteq> [] \<and> ev_failed (last (writes r)) \<longrightarrow> length (writes r) = n \<and> isErr (snd r)))"

section \<open>A scripted remote, for running the operations on concrete inputs\<close>

text \<open>
  A remote whose state counts the calls made so far, and whose answer to a call is
  scripted by the kind of the call and that count: the status code of the response,
  whether the call returns an error, and the identifier the result carries. The
  helpers parse every identifier to the same components.
\<close>

type_synonym script = "verb \<Rightarrow> nat \<Rightarrow> int \<times> bool \<times> string option"

definition scStatus :: "script \<Rightarrow> verb \<Rightarrow> nat \<Rightarrow> httpResponse option" where
  "scStatus sc v n = Some \<lparr>StatusCode = fst (sc v n)\<rparr>"

definition scErr :: "script \<Rightarrow> verb \<Rightarrow> nat \<Rightarrow> error option" where
  "scErr sc v n = (if fst (snd (sc v n)) then Some (LibError ''remote error'') else None)"

definition scId :: "script \<Rightarrow> verb \<Rightarrow> nat \<Rightarrow> string option" where
  "scId sc v n = snd (snd (sc v n))"

definition scriptedClient :: "script \<Rightarrow> nat ArmClient" where
  "scriptedClient sc =
     \<lparr>schedulerJobCollectionsClient =
        \<lparr>jc_Get = (\<lambda>cx rg nm n.
            ((\<lparr>jc_Response = scStatus sc GET n, jc_ID = scId sc GET n, jc_Name = None,
               jc_Location = None, jc_Tags = None, jc_Properties = None\<rparr>, scErr sc GET n), Suc n)),
         jc_CreateOrUpdate = (\<lambda>cx rg nm c n.
            ((\<lparr>jc_Response = scStatus sc WRITE n, jc_ID = scId sc WRITE n, jc_Name = None,
               jc_Location = None, jc_Tags = None, jc_Properties = None\<rparr>, scErr sc WRITE n), Suc n)),
         jc_Delete = (\<lambda>cx rg nm n.
            ((\<lparr>fut_Response = scStatus sc DELETE n\<rparr>, scErr sc DELETE n), Suc n)),
         jc_WaitForCompletionRef = (\<lambda>cx f n.
            ((\<lparr>fut_Response = scStatus sc WAIT n\<rparr>, scErr sc WAIT n), Suc n))\<rparr>,
      eventHubConsumerGroupClient =
        \<lparr>cg_Get = (\<lambda>cx rg ns eh nm n.
            ((\<lparr>cg_Response = scStatus sc GET n, cg_ID = scId sc GET n, cg_Name = None,
               cg_ConsumerGroupProperties = Some \<lparr>cgp_UserMetadata = None\<rparr>\<rparr>, scErr sc GET n), Suc n)),
         cg_CreateOrUpdate = (\<lambda>cx rg ns eh nm c n.
            ((\<lparr>cg_Response = scStatus sc WRITE n, cg_ID = scId sc WRITE n, cg_Name = None,
               cg_ConsumerGroupProperties = None\<rparr>, scErr sc WRITE n), Suc n)),
         cg_Delete = (\<lambda>cx rg ns eh nm n. ((scStatus sc DELETE n, scErr sc DELETE n), Suc n))\<rparr>,
      trafficManagerProfilesClient =
        \<lparr>tm_Get = (\<lambda>cx rg nm n.
            ((\<lparr>tm_Response = scStatus sc GET n, tm_ID = scId sc GET n, tm_Name = None,
               tm_Location = None, tm_Tags = None, tm_ProfileProperties = None\<rparr>, scErr sc GET n), Suc n)),
         tm_CreateOrUpdate = (\<lambda>cx rg nm c n.
            ((\<lparr>tm_Response = scStatus sc WRITE n, tm_ID = scId sc WRITE n, tm_Name = None,
               tm_Location = None, tm_Tags = None, tm_ProfileProperties = None\<rparr>, scErr sc WRITE n), Suc n)),
         tm_Delete = (\<lambda>cx rg nm n.
            ((\<lparr>dor_Response = scStatus sc DELETE n\<rparr>, scErr sc DELETE n), Suc n))\<rparr>,
      monitorAlertRulesClient =
        \<lparr>arr_Get = (\<lambda>cx rg nm n.
            ((\<lparr>arr_Response = scStatus sc GET n, arr_ID = scId sc GET n, arr_Name = None,
               arr_Location = None, arr_Tags = None, arr_AlertRule = None\<rparr>, scErr sc GET n), Suc n)),
         arr_CreateOrUpdate = (\<lambda>cx rg nm c n.
            ((\<lparr>arr_Response = scStatus sc WRITE n, arr_ID = scId sc WRITE n, arr_Name = None,
               arr_Location = None, arr_Tags = None, arr_AlertRule = None\<rparr>, scErr sc WRITE n), Suc n)),
         arr_Delete = (\<lambda>cx rg nm n. ((scStatus sc DELETE n, scErr sc DELETE n), Suc n))\<rparr>,
      dataLakeStoreFilesClient =
        \<lparr>AdlsFileSystemDNSSuffix = ''azuredatalakestore.net'',
         fs_GetFileStatus = (\<lambda>cx acct path tol n.
            ((\<lparr>fsr_Response = scStatus sc GET n\<rparr>, scErr sc GET n), Suc n)),
         fs_Create = (\<lambda>cx acct path body ow flag n. ((scStatus sc WRITE n, scErr sc WRITE n), Suc n)),
         fs_Delete = (\<lambda>cx acct path rec n.
            ((\<lparr>for_Response = scStatus sc DELETE n\<rparr>, scErr sc DELETE n), Suc n))\<rparr>,
      roleAssignmentsClient =
        \<lparr>ra_Get = (\<lambda>cx scope nm n.
            ((\<lparr>ra_Response = scStatus sc GET n, ra_ID = scId sc GET n, ra_Name = None,
               ra_RoleAssignmentPropertiesWithScope = None\<rparr>, scErr sc GET n), Suc n)),
         ra_GetByID = (\<lambda>cx i n.
            ((\<lparr>ra_Response = scStatus sc GET n, ra_ID = scId sc GET n, ra_Name = None,
               ra_RoleAssignmentPropertiesWithScope = None\<rparr>, scErr sc GET n), Suc n)),
         ra_Create = (\<lambda>cx scope nm c n.
            ((\<lparr>ra_Response = scStatus sc WRITE n, ra_ID = scId sc WRITE n, ra_Name = None,
               ra_RoleAssignmentPropertiesWithScope = None\<rparr>, scErr sc WRITE n), Suc n)),
         ra_Delete = (\<lambda>cx scope nm n.
            ((\<lparr>ra_Response = scStatus sc DELETE n, ra_ID = None, ra_Name = None,
               ra_RoleAssignmentPropertiesWithScope = None\<rparr>, scErr sc DELETE n), Suc n))\<rparr>,
      roleDefinitionsClient =
        \<lparr>rdef_List = (\<lambda>cx scope flt n. (([\<lparr>rdef_ID = scId sc LIST n\<rparr>], scErr sc LIST n), Suc n))\<rparr>,
      solutionsClient =
        \<lparr>sol_Get = (\<lambda>cx rg nm n.
            ((\<lparr>sol_Response = scStatus sc GET n, sol_ID = scId sc GET n, sol_Name = Some nm,
               sol_Location = None,
               sol_Plan = Some \<lparr>sp_Name = Some nm, sp_Publisher = Some ''Microsoft'',
                                sp_PromotionCode = Some [], sp_Product = Some ''OMSGallery''\<rparr>,
               sol_Properties = None\<rparr>, scErr sc GET n), Suc n)),
         sol_CreateOrUpdate = (\<lambda>cx rg nm c n.
            ((\<lparr>fut_Response = scStatus sc WRITE n\<rparr>, scErr sc WRITE n), Suc n)),
         sol_Delete = (\<lambda>cx rg nm n.
            ((\<lparr>fut_Response = scStatus sc DELETE n\<rparr>, scErr sc DELETE n), Suc n)),
         sol_WaitForCompletionRef = (\<lambda>cx f n.
            ((\<lparr>fut_Response = scStatus sc WAIT n\<rparr>, scErr sc WAIT n), Suc n))\<rparr>,
      keyVaultManagementClient =
        \<lparr>kv_GetKey = (\<lambda>cx vault nm ver n.
            ((\<lparr>kb_Response = scStatus sc GET n,
               kb_Key = Some \<lparr>jwk_Kid = scId sc GET n, jwk_Kty = ''RSA'', jwk_KeyOps = Some [],
                               jwk_N = None, jwk_E = None\<rparr>,
               kb_Tags = None\<rparr>, scErr sc GET n), Suc n)),
         kv_CreateKey = (\<lambda>cx vault nm c n.
            ((\<lparr>kb_Response = scStatus sc WRITE n, kb_Key = None, kb_Tags = None\<rparr>,
              scErr sc WRITE n), Suc n)),
         kv_UpdateKey = (\<lambda>cx vault nm ver c n.
            ((\<lparr>kb_Response = scStatus sc WRITE n, kb_Key = None, kb_Tags = None\<rparr>,
              scErr sc WRITE n), Suc n)),
         kv_DeleteKey = (\<lambda>cx vault nm n.
            ((\<lparr>dkb_Response = scStatus sc DELETE n\<rparr>, scErr sc DELETE n), Suc n))\<rparr>,
      dnsClient =
        \<lparr>rs_Get = (\<lambda>cx rg zone nm ty n.
            ((\<lparr>rs_Response = scStatus sc GET n, rs_ID = scId sc GET n, rs_Name = None,
               rs_RecordSetProperties = Some \<lparr>rsp_Metadata = None, rsp_TTL = None,
                                              rsp_AaaaRecords = None\<rparr>\<rparr>, scErr sc GET n), Suc n)),
         rs_CreateOrUpdate = (\<lambda>cx rg zone nm ty c et inm n.
            ((\<lparr>rs_Response = scStatus sc WRITE n, rs_ID = scId sc WRITE n, rs_Name = None,
               rs_RecordSetProperties = None\<rparr>, scErr sc WRITE n), Suc n)),
         rs_Delete = (\<lambda>cx rg zone nm ty et n. ((scStatus sc DELETE n, scErr sc DELETE n), Suc n))\<rparr>\<rparr>"

definition scriptedProvider :: "script \<Rightarrow> nat \<Rightarrow> nat provider" where
  "scriptedProvider sc attempts =
     \<lparr>meta = scriptedClient sc,
      parseAzureResourceID = (\<lambda>i. Inr \<lparr>SubscriptionID = ''0000'', ResourceGroup = ''rg'',
                                        Provider = ''Microsoft'', Path = (\<lambda>k. Some ''example'')\<rparr>),
      parseKeyVaultChildID = (\<lambda>i. Inr \<lparr>KeyVaultBaseUrl = ''https://vault'', kvc_Name = ''key'',
                                        kvc_Version = ''1''\<rparr>),
      azureRMNormalizeLocation = (\<lambda>l. l),
      expandTags = (\<lambda>m. None),
      flattenTags = (\<lambda>m. VMap []),
      filterTags = (\<lambda>m ks. m),
      TimeoutForCreateUpdate = (\<lambda>d. if rd_IsNewResource d then TimeoutCreate else TimeoutUpdate),
      urlParse = (\<lambda>u. Inr \<lparr>url_Host = ''acct.azuredatalakestore.net'', url_Path = ''/file''\<rparr>),
      osOpen = (\<lambda>path. Inr path),
      ioutilReadAll = (\<lambda>file. Inr ''contents''),
      GenerateUUID = (\<lambda>n. ((''11111111-2222'', None), n)),
      retryAttempts = (\<lambda>k. attempts)\<rparr>"

definition blankData :: "string \<Rightarrow> bool \<Rightarrow> ResourceData" where
  "blankData i new =
     \<lparr>rd_Id = i, rd_IsNewResource = new, rd_fields = (\<lambda>k. None), rd_setError = (\<lambda>k v. None)\<rparr>"

text \<open>
  Data with the given fields set, and a few scripts: one answer to every call; a write
  that returns one identifier while every other call returns another; and a remote
  whose first call reports not-found, whose second call, when it is a write, fails, and
  whose later calls succeed.
\<close>

definition dataWith :: "string \<Rightarrow> bool \<Rightarrow> (string \<times> val) list \<Rightarrow> ResourceData" where
  "dataWith i new kvs =
     \<lparr>rd_Id = i, rd_IsNewResource = new, rd_fields = map_of kvs, rd_setError = (\<lambda>k v. None)\<rparr>"

definition answerAll :: "int \<Rightarrow> bool \<Rightarrow> string option \<Rightarrow> script" where
  "answerAll st failed i = (\<lambda>v n. (st, failed, i))"

definition writeThenRead :: "string \<Rightarrow> string \<Rightarrow> script" where
  "writeThenRead a b = (\<lambda>v n. (200, False, Some (if v = WRITE then a else b)))"

definition secondWriteSucceeds :: script where
  "secondWriteSucceeds =
     (\<lambda>v n. if n = 0 then (404, True, None)
            else if v = WRITE \<and> n = 1 then (500, True, None)
            else (200, False, Some ''assignment''))"





definition exampleRecordId :: string where
  "exampleRecordId =
     ''/subscriptions/0000/resourceGroups/rg/providers/Microsoft.Network/dnszones/example/AAAA/example''"

definition exampleRecord :: ResourceData where
  "exampleRecord =
     dataWith exampleRecordId False
       [(''name'', VString ''example''), (''zone_name'', VString ''example''),
        (''resource_group_name'', VString ''rg''), (''ttl'', VInt 300),
        (''records'', VSet [VString ''::1''])]"

definition exampleFile :: ResourceData where
  "exampleFile =
     dataWith [] True
       [(''account_name'', VString ''acct''), (''remote_file_path'', VString ''/file''),
        (''local_file_path'', VString ''file.txt'')]"

section \<open>Reading the results of the helpers\<close>

text \<open>
  The interval of the recurrence in the result of expanding a quota block, and the
  entry under a key in a flattened block (a list of one map).
\<close>

definition quotaInterval :: "string + JobCollectionQuota option \<Rightarrow> 32 word option" where
  "quotaInterval r =
     (case r of
        Inr (Some q) \<Rightarrow> (case jcq_MaxRecurrence q of None \<Rightarrow> None | Some mr \<Rightarrow> jmr_Interval mr)
      | _ \<Rightarrow> None)"

definition blockEntry :: "val \<Rightarrow> string \<Rightarrow> val option" where
  "blockEntry v k = (case v of VList [VMap m] \<Rightarrow> map_of m k | _ \<Rightarrow> None)"

section \<open>Rules that follow the code statement by statement\<close>

lemma satLet: "sat Q (f a) \<Longrightarrow> sat Q (Let a f)"
  by simp

lemma satIf: "(c \<Longrightarrow> sat Q a) \<Longrightarrow> (\<not> c \<Longrightarrow> sat Q b) \<Longrightarrow> sat Q (if c then a else b)"
  by simp

lemma satOpt:
  "(x = None \<Longrightarrow> sat Q a) \<Longrightarrow> (\<And>y. x = Some y \<Longrightarrow> sat Q (b y)) \<Longrightarrow>
   sat Q (case x of None \<Rightarrow> a | Some y \<Rightarrow> b y)"
  by (cases x) simp_all

lemma satSum:
  "(\<And>e. x = Inl e \<Longrightarrow> sat Q (a e)) \<Longrightarrow> (\<And>y. x = Inr y \<Longrightarrow> sat Q (b y)) \<Longrightarrow>
   sat Q (case x of Inl e \<Rightarrow> a e | Inr y \<Rightarrow> b y)"
  by (cases x) simp_all

lemma satList:
  "(x = [] \<Longrightarrow> sat Q a) \<Longrightarrow> (\<And>y ys. x = y # ys \<Longrightarrow> sat Q (b y ys)) \<Longrightarrow>
   sat Q (case x of [] \<Rightarrow> a | y # ys \<Rightarrow> b y ys)"
  by (cases x) simp_all

lemma satInvoke:
  "(\<And>r err s1. rd s1 = rd s \<Longrightarrow>
      calls s1 = calls s @ [\<lparr>ev_verb = v, ev_ctx = cx, ev_target = tg, ev_failed = (err \<noteq> None),
                 ev_notFound = ResponseWasNotFound (rf r), ev_id = idf r\<rparr>] \<Longrightarrow>
      sat Q (F r err s1)) \<Longrightarrow>
   sat Q (case invoke v cx tg rf idf f s of ((r, err), s1) \<Rightarrow> F r err s1)"
  by (auto simp: invoke_def split: prod.splits)

lemma satDSet:
  "(\<And>s1 e. rd_Id (rd s1) = rd_Id (rd s) \<Longrightarrow> calls s1 = calls s \<Longrightarrow> sat Q (F s1 e)) \<Longrightarrow>
   sat Q (case dSet k v s of (s1, e) \<Rightarrow> F s1 e)"
  by (auto simp: dSet_def split: prod.splits option.splits)

lemma satProd: "sat (\<lambda>x. sat Q (case x of (a, b) \<Rightarrow> F a b)) X \<Longrightarrow> sat Q (case X of (a, b) \<Rightarrow> F a b)"
  by (simp add: sat_def)

lemma satPair: "sat Q (F a b) \<Longrightarrow> sat (\<lambda>x. sat Q (case x of (a, b) \<Rightarrow> F a b)) (a, b)"
  by (simp add: sat_def)

lemma satAny: "(\<And>a b. sat Q (F a b)) \<Longrightarrow> sat (\<lambda>x. sat Q (case x of (a, b) \<Rightarrow> F a b)) X"
  by (cases X) (simp add: sat_def)

lemmas satRules = satLet satIf satOpt satSum satList satInvoke satDSet satProd satPair

lemma dSet0_frame [simp]:
  "rd_Id (rd (dSet0 k v s)) = rd_Id (rd s)"
  "rd_IsNewResource (rd (dSet0 k v s)) = rd_IsNewResource (rd s)"
  "calls (dSet0 k v s) = calls s"
  "world (dSet0 k v s) = world s"
  by (simp_all add: dSet0_def dSet_def split: option.splits)

lemma flattenAndSetTags_frame [simp]:
  "rd_Id (rd (flattenAndSetTags p t s)) = rd_Id (rd s)"
  "calls (flattenAndSetTags p t s) = calls s"
  "world (flattenAndSetTags p t s) = world s"
  by (simp_all add: flattenAndSetTags_def)

lemma SetId_frame [simp]:
  "rd_Id (rd (SetId i s)) = i"
  "calls (SetId i s) = calls s"
  "world (SetId i s) = world s"
  by (simp_all add: SetId_def)

lemma start_frame [simp]: "calls (start d w) = []" "rd (start d w) = d" "world (start d w) = w"
  by (simp_all add: start_def)

lemma frame_case_option [simp]:
  "calls (case x of None \<Rightarrow> a | Some y \<Rightarrow> b y) = (case x of None \<Rightarrow> calls a | Some y \<Rightarrow> calls (b y))"
  "rd_Id (rd (case x of None \<Rightarrow> a | Some y \<Rightarrow> b y)) =
     (case x of None \<Rightarrow> rd_Id (rd a) | Some y \<Rightarrow> rd_Id (rd (b y)))"
  by (simp_all split: option.splits)

lemma case_option_same [simp]: "(case x of None \<Rightarrow> c | Some y \<Rightarrow> c) = c"
  by (simp split: option.splits)

lemma flattenRuleCondition_frame:
  "flattenRuleCondition c s = (s1, pn) \<Longrightarrow> rd_Id (rd s1) = rd_Id (rd s) \<and> calls s1 = calls s"
  by (auto simp: flattenRuleCondition_def Let_def
      split: option.splits RuleCondition.splits RuleDataSource.splits)

lemma satFlattenRuleCondition:
  assumes "\<And>s1 pn. rd_Id (rd s1) = rd_Id (rd s) \<Longrightarrow> calls s1 = calls s \<Longrightarrow> sat Q (F s1 pn)"
  shows "sat Q (case flattenRuleCondition c s of (s1, pn) \<Rightarrow> F s1 pn)"
proof -
  obtain s1 pn where e: "flattenRuleCondition c s = (s1, pn)"
    by (cases "flattenRuleCondition c s")
  from flattenRuleCondition_frame [OF e] assms show ?thesis
    by (simp add: e)
qed

lemma setSolutionNames_frame:
  "setSolutionNames n s = Some s1 \<Longrightarrow> rd_Id (rd s1) = rd_Id (rd s) \<and> calls s1 = calls s"
  by (auto simp: setSolutionNames_def Let_def split: option.splits if_splits list.splits)

lemma satSetSolutionNames:
  assumes "setSolutionNames n s = None \<Longrightarrow> sat Q a"
    and "\<And>s1. rd_Id (rd s1) = rd_Id (rd s) \<Longrightarrow> calls s1 = calls s \<Longrightarrow> sat Q (b s1)"
  shows "sat Q (case setSolutionNames n s of None \<Rightarrow> a | Some s1 \<Rightarrow> b s1)"
proof (cases "setSolutionNames n s")
  case None
  with assms(1) show ?thesis by simp
next
  case (Some s1)
  from setSolutionNames_frame [OF Some] assms(2) show ?thesis
    by (simp add: Some)
qed

section \<open>Read: one GET, and the identifier is cleared exactly on not-found\<close>

lemma readContractE:
  assumes "readContract s r"
  obtains (noCall) "calls (fst r) = calls s" "rd_Id (rd (fst r)) = rd_Id (rd s)" "isErr (snd r)"
  | (oneCall) e where "calls (fst r) = calls s @ [e]" "ev_verb e = GET"
      "if ev_failed e
       then (if ev_notFound e then rd_Id (rd (fst r)) = [] \<and> snd r = ReturnNil
             else rd_Id (rd (fst r)) = rd_Id (rd s) \<and> isErr (snd r))
       else rd_Id (rd (fst r)) = rd_Id (rd s)"
proof -
  obtain s' out where r: "r = (s', out)" by (cases r)
  from assms r consider
    (a) "calls s' = calls s" "rd_Id (rd s') = rd_Id (rd s)" "isErr out"
    | (b) "calls s' \<noteq> []" "butlast (calls s') = calls s" "ev_verb (last (calls s')) = GET"
      "if ev_failed (last (calls s'))
       then (if ev_notFound (last (calls s')) then rd_Id (rd s') = [] \<and> out = ReturnNil
             else rd_Id (rd s') = rd_Id (rd s) \<and> isErr out)
       else rd_Id (rd s') = rd_Id (rd s)"
    by (auto simp: readContract_def)
  then show thesis
  proof cases
    case a
    with r show ?thesis by (intro noCall) simp_all
  next
    case b
    from b(1,2) have "calls s' = calls s @ [last (calls s')]"
      by (metis append_butlast_last_id)
    with b r show ?thesis by (intro oneCall [of "last (calls s')"]) simp_all
  qed
qed

lemma satRead:
  assumes "sat (readContract s) x"
    and "calls (fst x) = calls s \<Longrightarrow> rd_Id (rd (fst x)) = rd_Id (rd s) \<Longrightarrow> isErr (snd x) \<Longrightarrow> Q x"
    and "\<And>e. calls (fst x) = calls s @ [e] \<Longrightarrow> ev_verb e = GET \<Longrightarrow>
      (if ev_failed e
       then (if ev_notFound e then rd_Id (rd (fst x)) = [] \<and> snd x = ReturnNil
             else rd_Id (rd (fst x)) = rd_Id (rd s) \<and> isErr (snd x))
       else rd_Id (rd (fst x)) = rd_Id (rd s)) \<Longrightarrow> Q x"
  shows "sat Q x"
  using assms(1) unfolding sat_def
  by (rule readContractE) (use assms(2,3) in blast)+

lemma scheduler_read: "sat (readContract s) (resourceArmSchedulerJobCollectionRead p s)"
  unfolding resourceArmSchedulerJobCollectionRead_def
  apply (intro satRules)
  apply (simp_all add: sat_def readContract_def isErr_def cong: option.case_cong)
  done

lemma eventhub_read: "sat (readContract s) (resourceArmEventHubConsumerGroupRead p s)"
  unfolding resourceArmEventHubConsumerGroupRead_def
  apply (intro satRules)
  apply (simp_all add: sat_def readContract_def isErr_def cong: option.case_cong)
  done

lemma trafficmanager_read: "sat (readContract s) (resourceArmTrafficManagerProfileRead p s)"
  unfolding resourceArmTrafficManagerProfileRead_def
  apply (intro satRules)
  apply (simp_all add: sat_def readContract_def isErr_def cong: option.case_cong)
  done

lemma metricalert_read: "sat (readContract s) (resourceArmMetricAlertRuleRead p s)"
  unfolding resourceArmMetricAlertRuleRead_def
  apply ((simp_all only: option.case sum.case prod.case | intro satFlattenRuleCondition satRules)+)
  apply (simp_all add: sat_def readContract_def isErr_def split: prod.split cong: option.case_cong)
  done

lemma datalake_read: "sat (readContract s) (resourceArmDataLakeStoreFileRead p s)"
  unfolding resourceArmDataLakeStoreFileRead_def
  apply (intro satRules)
  apply (simp_all add: sat_def readContract_def isErr_def cong: option.case_cong)
  done

lemma roleassignment_read: "sat (readContract s) (resourceArmRoleAssignmentRead p s)"
  unfolding resourceArmRoleAssignmentRead_def
  apply (intro satRules)
  apply (simp_all add: sat_def readContract_def isErr_def cong: option.case_cong)
  done

lemma loganalytics_read: "sat (readContract s) (resourceArmLogAnalyticsSolutionRead p s)"
  unfolding resourceArmLogAnalyticsSolutionRead_def
  apply (intro satSetSolutionNames satRules)
  apply (simp_all add: sat_def readContract_def isErr_def cong: option.case_cong)
  done

lemma keyvault_read: "sat (readContract s) (resourceArmKeyVaultKeyRead p s)"
  unfolding resourceArmKeyVaultKeyRead_def
  apply ((simp_all only: option.case sum.case prod.case | intro satRules)+)
  apply (simp_all add: sat_def readContract_def isErr_def cong: option.case_cong)
  done

lemma dns_read: "sat (readContract s) (resourceArmDnsAaaaRecordRead p s)"
  unfolding resourceArmDnsAaaaRecordRead_def
  apply (intro satRules)
  apply (simp_all add: sat_def readContract_def isErr_def cong: option.case_cong)
  done


section \<open>Delete: which adapters tolerate not-found\<close>

lemma WasNotFound_eq [simp]: "WasNotFound r = ResponseWasNotFound r"
  by (simp add: WasNotFound_def ResponseWasNotFound_def)










section \<open>Create and Update: pre-check, write, re-read\<close>

lemma delegatesI:
  "r = Read s2 \<Longrightarrow> rd_Id (rd s2) = i \<Longrightarrow> calls (fst r) = calls s2 @ rest \<Longrightarrow> delegates Read i rest r"
  unfolding delegates_def by auto

lemmas createDefs = sat_def createContract_def precheckOk_def rereadOk_def writes_def nonList_def
  hardFail_def isErr_def

lemma scheduler_create:
  "sat (createContract (rd_IsNewResource d) ''azurerm_scheduler_job_collection'' True False
          (resourceArmSchedulerJobCollectionRead p) d)
     (resourceArmSchedulerJobCollectionCreateUpdate p (start d w))"
  unfolding resourceArmSchedulerJobCollectionCreateUpdate_def
  apply ((simp_all only: option.case sum.case prod.case | intro satRules satRead [OF scheduler_read])+)
  apply ((clarsimp simp: createDefs split: option.split | rule delegatesI [OF refl])+)
  done

lemma eventhub_create:
  "sat (createContract (rd_IsNewResource d) ''azurerm_eventhub_consumer_group'' True True
          (resourceArmEventHubConsumerGroupRead p) d)
     (resourceArmEventHubConsumerGroupCreateUpdate p (start d w))"
  unfolding resourceArmEventHubConsumerGroupCreateUpdate_def
  apply ((simp_all only: option.case sum.case prod.case | intro satRules satRead [OF eventhub_read])+)
  apply ((clarsimp simp: createDefs split: option.split | rule delegatesI [OF refl])+)
  done

lemma trafficmanager_create:
  "sat (createContract (rd_IsNewResource d) ''azurerm_traffic_manager_profile'' True True
          (resourceArmTrafficManagerProfileRead p) d)
     (resourceArmTrafficManagerProfileCreateUpdate p (start d w))"
  unfolding resourceArmTrafficManagerProfileCreateUpdate_def
  apply ((simp_all only: option.case sum.case prod.case | intro satRules satRead [OF trafficmanager_read])+)
  apply ((clarsimp simp: createDefs split: option.split | rule delegatesI [OF refl])+)
  done

lemma metricalert_create:
  "sat (createContract (rd_IsNewResource d) ''azurerm_metric_alertrule'' True True
          (resourceArmMetricAlertRuleRead p) d)
     (resourceArmMetricAlertRuleCreateUpdate p (start d w))"
  unfolding resourceArmMetricAlertRuleCreateUpdate_def
  apply ((simp_all only: option.case sum.case prod.case | intro satRules satRead [OF metricalert_read] satAny)+)
  apply ((clarsimp simp: createDefs split: option.split | rule delegatesI [OF refl])+)
  done

lemma loganalytics_create:
  "sat (createContract (rd_IsNewResource d) ''azurerm_log_analytics_solution'' True True
          (resourceArmLogAnalyticsSolutionRead p) d)
     (resourceArmLogAnalyticsSolutionCreateUpdate p (start d w))"
  unfolding resourceArmLogAnalyticsSolutionCreateUpdate_def
  apply ((simp_all only: option.case sum.case prod.case | intro satRules satRead [OF loganalytics_read])+)
  apply ((clarsimp simp: createDefs split: option.split option.split_asm if_split_asm
      | rule delegatesI [OF refl])+)
  done

lemma keyvault_create:
  "sat (createContract True ''azurerm_key_vault_key'' True False (resourceArmKeyVaultKeyRead p) d)
     (resourceArmKeyVaultKeyCreate p (start d w))"
  unfolding resourceArmKeyVaultKeyCreate_def
  apply ((simp_all only: option.case sum.case prod.case | intro satRules satRead [OF keyvault_read])+)
  apply ((clarsimp simp: createDefs split: option.split | rule delegatesI [OF refl])+)
  done

lemma dns_create:
  "sat (createContract (rd_IsNewResource d) ''azurerm_dns_aaaa_record'' False True
          (resourceArmDnsAaaaRecordRead p) d)
     (resourceArmDnsAaaaRecordCreateOrUpdate p (start d w))"
  unfolding resourceArmDnsAaaaRecordCreateOrUpdate_def
  apply ((simp_all only: option.case sum.case prod.case | intro satRules satRead [OF dns_read] satAny)+)
  apply (clarsimp simp: createDefs split: option.split)+
  done

lemma datalake_create:
  "sat (createContract False ''azurerm_data_lake_store_file'' False True
          (resourceArmDataLakeStoreFileRead p) d)
     (resourceArmDataLakeStoreFileCreate p (start d w))"
  unfolding resourceArmDataLakeStoreFileCreate_def
  apply ((simp_all only: option.case sum.case prod.case | intro satRules satRead [OF datalake_read])+)
  apply (clarsimp simp: createDefs split: option.split)+
  done

section \<open>The role assignment: a looked-up role definition and a retried write\<close>

lemma retryStep:
  "retryRoleAssignmentsClient cx scope name props p s = (r, s1) \<Longrightarrow>
   rd s1 = rd s \<and>
   (\<exists>e. calls s1 = calls s @ [e] \<and> ev_verb e = WRITE \<and> ev_ctx e = cx \<and>
        ev_failed e = (r \<noteq> None)) \<and>
   (\<forall>x. r = Some x \<longrightarrow> re_Retryable x)"
  by (auto simp: retryRoleAssignmentsClient_def invoke_def RetryableError_def Let_def
      split: prod.splits option.splits)

lemma retryLoop_log:
  "retryLoop n (retryRoleAssignmentsClient cx scope name props p) le s = (err, s1) \<Longrightarrow>
   rd s1 = rd s \<and>
   (case err of
      Some e \<Rightarrow> (\<exists>fs. calls s1 = calls s @ fs \<and> failedWrites cx fs \<and> length fs = n)
    | None \<Rightarrow> (\<exists>fs w. calls s1 = calls s @ fs @ [w] \<and> failedWrites cx fs \<and> length fs < n \<and>
                 ev_verb w = WRITE \<and> \<not> ev_failed w \<and> ev_ctx w = cx))"
proof (induction n arbitrary: le s)
  case 0
  then show ?case by (auto simp: failedWrites_def)
next
  case (Suc n)
  obtain r s' where step: "retryRoleAssignmentsClient cx scope name props p s = (r, s')"
    by (cases "retryRoleAssignmentsClient cx scope name props p s")
  from retryStep [OF step] obtain e where
    e: "rd s' = rd s" "calls s' = calls s @ [e]" "ev_verb e = WRITE" "ev_ctx e = cx"
       "ev_failed e = (r \<noteq> None)" "\<forall>x. r = Some x \<longrightarrow> re_Retryable x"
    by blast
  show ?case
  proof (cases r)
    case None
    with Suc.prems step e have "err = None" "s1 = s'" by auto
    with e None show ?thesis
      by (auto simp: failedWrites_def intro!: exI [of _ "[]"])
  next
    case (Some x)
    with Suc.prems step e
    have rest: "retryLoop n (retryRoleAssignmentsClient cx scope name props p) (Some (re_Err x)) s' = (err, s1)"
      by auto
    from Suc.IH [OF rest] e Some show ?thesis
      by (cases err) (auto simp: failedWrites_def intro: exI [of _ "e # fs" for fs])
  qed
qed

lemma satRetry:
  assumes "\<And>s1 fs e. rd s1 = rd s \<Longrightarrow> calls s1 = calls s @ fs \<Longrightarrow> failedWrites cx fs \<Longrightarrow>
             length fs = n \<Longrightarrow> sat Q (F (Some e) s1)"
    and "\<And>s1 fs w. rd s1 = rd s \<Longrightarrow> calls s1 = calls s @ fs @ [w] \<Longrightarrow> failedWrites cx fs \<Longrightarrow>
             length fs < n \<Longrightarrow> ev_verb w = WRITE \<Longrightarrow> \<not> ev_failed w \<Longrightarrow> ev_ctx w = cx \<Longrightarrow>
             sat Q (F None s1)"
  shows "sat Q (case Retry n (retryRoleAssignmentsClient cx scope name props p) s of
                  (err, s1) \<Rightarrow> F err s1)"
proof -
  obtain err s1 where r: "retryLoop n (retryRoleAssignmentsClient cx scope name props p) None s = (err, s1)"
    by (cases "retryLoop n (retryRoleAssignmentsClient cx scope name props p) None s")
  from retryLoop_log [OF r] assms show ?thesis
    by (cases err) (auto simp: Retry_def r)
qed

lemma resolveRoleDefinitionId_log:
  "resolveRoleDefinitionId p s = (x, s1) \<Longrightarrow>
   rd s1 = rd s \<and> (\<exists>ls. calls s1 = calls s @ ls \<and> list_all (\<lambda>e. ev_verb e = LIST) ls) \<and>
   x \<noteq> Inl ReturnNil"
  by (auto simp: resolveRoleDefinitionId_def invoke_def Let_def
      split: option.splits prod.splits if_splits list.splits)

lemma satResolve:
  assumes "\<And>x s1 ls. rd s1 = rd s \<Longrightarrow> calls s1 = calls s @ ls \<Longrightarrow>
             list_all (\<lambda>e. ev_verb e = LIST) ls \<Longrightarrow> x \<noteq> Inl ReturnNil \<Longrightarrow> sat Q (F x s1)"
  shows "sat Q (case resolveRoleDefinitionId p s of (x, s1) \<Rightarrow> F x s1)"
proof -
  obtain x s1 where r: "resolveRoleDefinitionId p s = (x, s1)"
    by (cases "resolveRoleDefinitionId p s")
  from resolveRoleDefinitionId_log [OF r] assms show ?thesis
    by (auto simp: r)
qed

lemma skipLists [simp]:
  assumes "list_all (\<lambda>e. ev_verb e = LIST) ls"
  shows "afterWrite (ls @ xs) = afterWrite xs" "afterWrite ls = None"
    "filter (\<lambda>e. ev_verb e = WRITE) ls = []" "filter (\<lambda>e. ev_verb e \<noteq> LIST) ls = []"
  using assms by (induction ls) auto

lemma skipFailedWrites [simp]:
  assumes "failedWrites cx fs"
  shows "afterWrite (fs @ xs) = afterWrite xs" "afterWrite fs = None"
    "filter (\<lambda>e. ev_verb e = WRITE) fs = fs" "filter (\<lambda>e. ev_verb e \<noteq> LIST) fs = fs"
    "list_all ev_failed fs" "list_all (\<lambda>e. ev_ctx e = cx) fs" "list_all ev_failed (butlast fs)"
  using assms by (induction fs) (auto simp: failedWrites_def)

lemma roleassignment_create:
  "sat (\<lambda>r. (getString d ''name'' \<noteq> [] \<longrightarrow> precheckOk True ''azurerm_role_assignment'' r) \<and>
            rereadOk True (resourceArmRoleAssignmentRead p) (rd_Id d) r \<and>
            retryContract (retryAttempts p TimeoutCreate) r)
     (resourceArmRoleAssignmentCreate p (start d w))"
  unfolding resourceArmRoleAssignmentCreate_def
  apply ((simp_all only: option.case sum.case prod.case
      | intro satResolve satRetry satRules satRead [OF roleassignment_read] satAny)+)
  apply ((clarsimp simp: createDefs retryContract_def split: option.split | rule delegatesI [OF refl])+)
  done

lemma keyvault_update:
  "sat (\<lambda>r. length (writes r) \<le> 1 \<and>
            (case afterWrite (calls (fst r)) of
               None \<Rightarrow> True
             | Some post \<Rightarrow> delegates (resourceArmKeyVaultKeyRead p) (rd_Id d) post r))
     (resourceArmKeyVaultKeyUpdate p (start d w))"
  unfolding resourceArmKeyVaultKeyUpdate_def
  apply ((simp_all only: option.case sum.case prod.case | intro satRules satRead [OF keyvault_read])+)
  apply ((clarsimp simp: createDefs split: option.split | rule delegatesI [OF refl])+)
  done

section \<open>The adapters together\<close>



lemma resourceCreate_writes:
  "a \<noteq> RoleAssignment \<Longrightarrow> length (writes (resourceCreate a p (start d w))) \<le> 1"
  using scheduler_create [of d p w] eventhub_create [of d p w] trafficmanager_create [of d p w]
    metricalert_create [of d p w] loganalytics_create [of d p w] keyvault_create [of p d w]
    dns_create [of d p w] datalake_create [of p d w]
  by (cases a) (simp_all add: sat_def createContract_def)

lemma resourceUpdate_writes:
  "resourceUpdate a = Some f \<Longrightarrow> length (writes (f p (start d w))) \<le> 1"
  using resourceCreate_writes [of a p d w] keyvault_update [of p d w]
  by (cases a) (auto simp: sat_def)

lemmas runDefs = scriptedProvider_def scriptedClient_def scStatus_def scErr_def scId_def blankData_def
  dataWith_def exampleRecordId_def exampleRecord_def exampleFile_def answerAll_def writeThenRead_def secondWriteSucceeds_def start_def invoke_def SetId_def
  dSet0_def dSet_def getString_def dGet_def getMap_def getInt_def getSetList_def getList_def dGetOk_def
  ResponseWasNotFound_def pathOf_def Let_def



section \<open>Read and Delete call the remote whenever the identifier parses\<close>











section \<open>Delete: the calls it makes\<close>










section \<open>Create and Update: a run that returns nil has written\<close>









lemma keyvault_update_wrote:
  "sat (\<lambda>r. snd r = ReturnNil \<longrightarrow> writes r \<noteq> []) (resourceArmKeyVaultKeyUpdate p (start d w))"
  unfolding resourceArmKeyVaultKeyUpdate_def
  apply ((simp_all only: option.case sum.case prod.case | intro satRules satRead [OF keyvault_read])+)
  apply (clarsimp simp: sat_def writes_def isErr_def split: option.split_asm if_split_asm)+
  done



section \<open>The identifier of the DNS AAAA record and of the data lake store file\<close>



section \<open>Create and Update reach their write call\<close>















section \<open>Read on a remote 404\<close>



section \<open>Delete on a remote 404\<close>




section \<open>Create on an existing identifier\<close>




section \<open>The re-read after a write\<close>




section \<open>The retried create of the role assignment\<close>

text \<open>
  Claim C7. Every adapter other than the role assignment makes at most one write call
  in a run of Create, and in a run of Update, so none of them retries the remote write.
  The role assignment's Create makes its write calls under the context of the create
  timeout, at most as many as the retry loop allows within that timeout; every write
  call before the last one failed, so each failure is followed by another attempt and
  a success ends the loop; and when the last write call failed, the attempts are
  used up and Create returns an error. The function the loop runs returns an error
  exactly when the remote create call returns one, and every error it returns is
  marked retryable.
\<close>

theorem only_role_assignment_retries_create:
  "(a \<noteq> RoleAssignment \<longrightarrow> length (writes (resourceCreate a p (start d w))) \<le> 1) \<and>
   (\<forall>f. resourceUpdate a = Some f \<longrightarrow> length (writes (f p (start d w))) \<le> 1) \<and>
   retryContract (retryAttempts p TimeoutCreate) (resourceCreate RoleAssignment p (start d w)) \<and>
   fst (retryRoleAssignmentsClient cx scope name properties p s) =
     map_option RetryableError
       (snd (fst (ra_Create (roleAssignmentsClient (meta p)) cx scope name properties (world s)))) \<and>
   re_Retryable (RetryableError e) \<and>
   (case Retry n (retryRoleAssignmentsClient cx scope name properties p) s of
      (err, s1) \<Rightarrow> (err = None) = (calls s1 \<noteq> calls s \<and> \<not> ev_failed (last (calls s1))))"
proof -
  have loop: "case Retry n (retryRoleAssignmentsClient cx scope name properties p) s of
      (err, s1) \<Rightarrow> (err = None) = (calls s1 \<noteq> calls s \<and> \<not> ev_failed (last (calls s1)))"
  proof -
    obtain err s1 where
      r: "retryLoop n (retryRoleAssignmentsClient cx scope name properties p) None s = (err, s1)"
      by (cases "retryLoop n (retryRoleAssignmentsClient cx scope name properties p) None s")
    show ?thesis
    proof (cases err)
      case None
      with retryLoop_log [OF r] show ?thesis
        by (auto simp: Retry_def r)
    next
      case (Some x)
      with retryLoop_log [OF r] obtain fs where
        fs: "calls s1 = calls s @ fs" "failedWrites cx fs"
        by auto
      then have "fs \<noteq> [] \<Longrightarrow> ev_failed (last fs)"
        by (auto simp: failedWrites_def list_all_iff)
      with fs Some show ?thesis
        by (auto simp: Retry_def r last_append)
    qed
  qed
  have "fst (retryRoleAssignmentsClient cx scope name properties p s) =
     map_option RetryableError
       (snd (fst (ra_Create (roleAssignmentsClient (meta p)) cx scope name properties (world s))))"
    by (simp add: retryRoleAssignmentsClient_def invoke_def Let_def split: prod.splits option.splits)
  with loop show ?thesis
    using resourceCreate_writes [of a p d w] resourceUpdate_writes [of a _ p d w]
      roleassignment_create [of d p w]
    by (simp add: sat_def RetryableError_def)
qed

theorem only_role_assignment_retries_create_witness:
  "map ev_failed
     (writes (resourceCreate RoleAssignment (scriptedProvider secondWriteSucceeds 3)
        (start (dataWith [] True
           [(''name'', VString ''n''), (''role_definition_id'', VString ''definition'')]) 0))) =
     [True, False] \<and>
   snd (resourceCreate RoleAssignment (scriptedProvider secondWriteSucceeds 3)
        (start (dataWith [] True
           [(''name'', VString ''n''), (''role_definition_id'', VString ''definition'')]) 0)) =
     ReturnNil \<and>
   map ev_failed
     (writes (resourceCreate RoleAssignment (scriptedProvider (answerAll 500 True None) 3)
        (start (dataWith [] True [(''role_definition_id'', VString ''definition'')]) 0))) =
     [True, True, True] \<and>
   isErr (snd (resourceCreate RoleAssignment (scriptedProvider (answerAll 500 True None) 3)
        (start (dataWith [] True [(''role_definition_id'', VString ''definition'')]) 0))) \<and>
   map ev_verb
     (calls (fst (resourceCreate SchedulerJobCollection (scriptedProvider (answerAll 500 True None) 3)
        (start (blankData [] False) 0)))) = [WRITE]"
proof -
  let ?P = "scriptedProvider secondWriteSucceeds 3"
  let ?Q = "scriptedProvider (answerAll 500 True None) 3"
  let ?d = "dataWith [] True [(''name'', VString ''n''), (''role_definition_id'', VString ''definition'')]"
  let ?e = "dataWith [] True [(''role_definition_id'', VString ''definition'')]"
  have run: "map ev_failed (writes (resourceCreate RoleAssignment ?P (start ?d 0))) = [True, False]"
    "snd (resourceCreate RoleAssignment ?P (start ?d 0)) = ReturnNil"
    "map ev_failed (writes (resourceCreate RoleAssignment ?Q (start ?e 0))) = [True, True, True]"
    "isErr (snd (resourceCreate RoleAssignment ?Q (start ?e 0)))"
    "map ev_verb (calls (fst (resourceCreate SchedulerJobCollection ?Q (start (blankData [] False) 0)))) =
       [WRITE]"
    by (simp_all add: runDefs resourceArmRoleAssignmentCreate_def resourceArmRoleAssignmentRead_def
        resolveRoleDefinitionId_def Retry_def retryRoleAssignmentsClient_def RetryableError_def
        resourceArmSchedulerJobCollectionCreateUpdate_def expandAzureArmSchedulerJobCollectionQuota_def
        writes_def isErr_def ptrString_def numeral_3_eq_3)
  from only_role_assignment_retries_create
    [where a = SchedulerJobCollection and p = ?Q and d = "blankData [] False" and w = 0]
  have one: "length (writes (resourceCreate SchedulerJobCollection ?Q (start (blankData [] False) 0))) \<le> 1"
    "length (writes (resourceArmSchedulerJobCollectionCreateUpdate ?Q (start (blankData [] False) 0))) \<le> 1"
    by simp_all
  from only_role_assignment_retries_create [where p = ?Q and d = ?e and w = 0]
  have "retryContract 3 (resourceCreate RoleAssignment ?Q (start ?e 0))"
    by (simp add: scriptedProvider_def)
  with one run show ?thesis
    by simp
qed

section \<open>Expand and flatten\<close>

lemma expandAaaaLoop_strings:
  "expandAaaaLoop (map VString xs) = Inr (map (\<lambda>x. \<lparr>Ipv6Address = Some x\<rparr>) xs)"
  by (induction xs) simp_all

lemma flattenAaaaLoop_addresses:
  "flattenAaaaLoop (map (\<lambda>x. \<lparr>Ipv6Address = Some x\<rparr>) xs) = xs"
  by (induction xs) simp_all

text \<open>
  Claim C5. For every list of IPv6 address strings held in \<open>records\<close>, expanding
  gives a record list (and no error) that flattens to exactly that list of addresses.
  For every traffic manager monitor configuration with a port and a path, flattening
  gives a block, and expanding data whose \<open>monitor_config\<close> is the set made of that
  block gives a configuration with the same protocol, port and path. For every traffic
  manager DNS configuration with a relative name and a TTL, flattening gives a block,
  and expanding data whose \<open>dns_config\<close> is the set made of that block gives a
  configuration with the same relative name and TTL.
\<close>

theorem expand_flatten_round_trip:
  "(dGet d ''records'' = VSet (map VString addrs) \<longrightarrow>
      (\<exists>rs. expandAzureRmDnsAaaaRecords d = Inr (rs, None) \<and>
            flattenAzureRmDnsAaaaRecords (Some rs) = addrs)) \<and>
   (mc_Port c = Some port \<and> mc_Path c = Some path \<longrightarrow>
      (\<exists>blk. flattenAzureRMTrafficManagerProfileMonitorConfig (Some c) = Inr blk \<and>
         (dGet dMon ''monitor_config'' = NewSet blk \<longrightarrow>
            (\<exists>c1. expandArmTrafficManagerMonitorConfig dMon = Inr c1 \<and>
                  mc_Protocol c1 = mc_Protocol c \<and> mc_Port c1 = Some port \<and>
                  mc_Path c1 = Some path)))) \<and>
   (dc_RelativeName dc = Some relativeName \<and> dc_TTL dc = Some ttl \<longrightarrow>
      (\<exists>blk. flattenAzureRMTrafficManagerProfileDNSConfig (Some dc) = Inr blk \<and>
         (dGet dDns ''dns_config'' = NewSet blk \<longrightarrow>
            (\<exists>dc1. expandArmTrafficManagerDNSConfig dDns = Inr dc1 \<and>
                   dc_RelativeName dc1 = Some relativeName \<and> dc_TTL dc1 = Some ttl))))"
proof (intro conjI impI)
  assume "dGet d ''records'' = VSet (map VString addrs)"
  then show "\<exists>rs. expandAzureRmDnsAaaaRecords d = Inr (rs, None) \<and>
            flattenAzureRmDnsAaaaRecords (Some rs) = addrs"
    by (simp add: expandAzureRmDnsAaaaRecords_def getSetList_def expandAaaaLoop_strings
        flattenAzureRmDnsAaaaRecords_def flattenAaaaLoop_addresses)
next
  assume "mc_Port c = Some port \<and> mc_Path c = Some path"
  then show "\<exists>blk. flattenAzureRMTrafficManagerProfileMonitorConfig (Some c) = Inr blk \<and>
         (dGet dMon ''monitor_config'' = NewSet blk \<longrightarrow>
            (\<exists>c1. expandArmTrafficManagerMonitorConfig dMon = Inr c1 \<and>
                  mc_Protocol c1 = mc_Protocol c \<and> mc_Port c1 = Some port \<and>
                  mc_Path c1 = Some path))"
    by (simp add: flattenAzureRMTrafficManagerProfileMonitorConfig_def
        expandArmTrafficManagerMonitorConfig_def getSetList_def NewSet_def mapAssign_def
        int64OfInt_def intOfInt64_def)
next
  assume "dc_RelativeName dc = Some relativeName \<and> dc_TTL dc = Some ttl"
  then show "\<exists>blk. flattenAzureRMTrafficManagerProfileDNSConfig (Some dc) = Inr blk \<and>
         (dGet dDns ''dns_config'' = NewSet blk \<longrightarrow>
            (\<exists>dc1. expandArmTrafficManagerDNSConfig dDns = Inr dc1 \<and>
                   dc_RelativeName dc1 = Some relativeName \<and> dc_TTL dc1 = Some ttl))"
    by (simp add: flattenAzureRMTrafficManagerProfileDNSConfig_def
        expandArmTrafficManagerDNSConfig_def getSetList_def NewSet_def mapAssign_def
        int64OfInt_def intOfInt64_def)
qed

theorem expand_flatten_round_trip_witness:
  "expandAzureRmDnsAaaaRecords
     (dataWith [] False [(''records'', VSet (map VString [''::1'', ''fe80::1'']))]) =
     Inr ([\<lparr>Ipv6Address = Some ''::1''\<rparr>, \<lparr>Ipv6Address = Some ''fe80::1''\<rparr>], None) \<and>
   flattenAzureRmDnsAaaaRecords
     (Some [\<lparr>Ipv6Address = Some ''::1''\<rparr>, \<lparr>Ipv6Address = Some ''fe80::1''\<rparr>]) =
     [''::1'', ''fe80::1''] \<and>
   expandArmTrafficManagerMonitorConfig
     (dataWith [] False [(''monitor_config'', NewSet
        [VMap [(''protocol'', VString ''https''), (''port'', VInt 443), (''path'', VString ''/'')]])]) =
     Inr \<lparr>mc_Protocol = ''https'', mc_Port = Some 443, mc_Path = Some ''/''\<rparr> \<and>
   expandArmTrafficManagerDNSConfig
     (dataWith [] False [(''dns_config'', NewSet
        [VMap [(''relative_name'', VString ''www''), (''ttl'', VInt 30)]])]) =
     Inr \<lparr>dc_RelativeName = Some ''www'', dc_Fqdn = None, dc_TTL = Some 30\<rparr>"
  using expand_flatten_round_trip
    [where d = "dataWith [] False [(''records'', VSet (map VString [''::1'', ''fe80::1'']))]"
       and addrs = "[''::1'', ''fe80::1'']"
       and c = "\<lparr>mc_Protocol = ''https'', mc_Port = Some 443, mc_Path = Some ''/''\<rparr>"
       and port = 443 and path = "''/''"
       and dMon = "dataWith [] False [(''monitor_config'', NewSet
          [VMap [(''protocol'', VString ''https''), (''port'', VInt 443), (''path'', VString ''/'')]])]"
       and dc = "\<lparr>dc_RelativeName = Some ''www'', dc_Fqdn = Some ''www.example'', dc_TTL = Some 30\<rparr>"
       and relativeName = "''www''" and ttl = 30
       and dDns = "dataWith [] False [(''dns_config'', NewSet
          [VMap [(''relative_name'', VString ''www''), (''ttl'', VInt 30)]])]"]
  by (simp add: dataWith_def dGet_def getSetList_def NewSet_def mapAssign_def
      expandAzureRmDnsAaaaRecords_def flattenAzureRmDnsAaaaRecords_def
      flattenAzureRMTrafficManagerProfileMonitorConfig_def expandArmTrafficManagerMonitorConfig_def
      flattenAzureRMTrafficManagerProfileDNSConfig_def expandArmTrafficManagerDNSConfig_def
      int64OfInt_def intOfInt64_def)

section \<open>The reserved tag key\<close>

lemma rangeTagKeys_appends:
  "rangeTagKeys tagsMap es =
     es @ map (\<lambda>k. Errorf ''the %q is not allowed as tag name'' [k] None)
            (filter (\<lambda>k. EqualFold k ''$type'') (map fst tagsMap))"
  by (induction tagsMap arbitrary: es) auto

text \<open>
  Claim C6. For every tag map, validation of the metric alert rule's tags returns the
  warnings of the validation shared by all resources, and its errors followed by one
  error for each key of the map that equals \<open>$type\<close> up to case, naming that key, and
  by nothing else: a map with such a key gets the error for it, a map without one
  gets no error for \<open>$type\<close>. The shared validation \<open>validateAzureRMTags\<close> is a
  parameter.
\<close>

theorem metric_alert_tags_reject_reserved_key:
  "validateMetricAlertRuleTags base (VMap tagsMap) f =
     Inr (fst (base (VMap tagsMap) f),
          snd (base (VMap tagsMap) f) @
          map (\<lambda>k. Errorf ''the %q is not allowed as tag name'' [k] None)
            (filter (\<lambda>k. EqualFold k ''$type'') (map fst tagsMap)))"
  by (simp add: validateMetricAlertRuleTags_def rangeTagKeys_appends split: prod.splits)

theorem metric_alert_tags_reject_reserved_key_witness:
  "validateMetricAlertRuleTags (\<lambda>v f. ([], []))
     (VMap [(''env'', VString ''prod''), (''$Type'', VString ''x'')]) ''tags'' =
     Inr ([], [Errorf ''the %q is not allowed as tag name'' [''$Type''] None]) \<and>
   validateMetricAlertRuleTags (\<lambda>v f. ([], []))
     (VMap [(''env'', VString ''prod'')]) ''tags'' = Inr ([], [])"
  using metric_alert_tags_reject_reserved_key
    [of "\<lambda>v f. ([], [])" "[(''env'', VString ''prod''), (''$Type'', VString ''x'')]" "''tags''"]
    metric_alert_tags_reject_reserved_key
    [of "\<lambda>v f. ([], [])" "[(''env'', VString ''prod'')]" "''tags''"]
  by (simp add: EqualFold_def toLowerASCII_def char_of_def bit_0)

section \<open>The name of a log analytics solution\<close>

















section \<open>The quota of a scheduler job collection\<close>

text \<open>
  Claim C10. A nil quota flattens to nil. When the remote quota has a recurrence with
  an interval, the flattened block holds that interval under both
  \<open>max_recurrence_interval\<close> and \<open>max_retry_interval\<close>. An empty list of quota blocks
  expands to nil. A quota block expands to a quota whose recurrence interval is the
  \<open>max_recurrence_interval\<close> of the block when that is an integer greater than zero,
  whatever \<open>max_retry_interval\<close> is; and otherwise is the \<open>max_retry_interval\<close> of
  the block when that is an integer greater than zero, and is nil when it is not.
\<close>

theorem quota_shim_keeps_retry_interval_in_sync:
  "flattenAzureArmSchedulerJobCollectionQuota None = VNil \<and>
   (jcq_MaxRecurrence q = Some recurrence \<and> jmr_Interval recurrence = Some v \<longrightarrow>
      blockEntry (flattenAzureArmSchedulerJobCollectionQuota (Some q)) ''max_recurrence_interval'' =
        Some (VInt32 v) \<and>
      blockEntry (flattenAzureArmSchedulerJobCollectionQuota (Some q)) ''max_retry_interval'' =
        Some (VInt32 v)) \<and>
   (dGet d ''quota'' = VList [] \<longrightarrow> expandAzureArmSchedulerJobCollectionQuota d = Inr None) \<and>
   (dGet d ''quota'' = VList (VMap quotaBlock # rest) \<longrightarrow>
      (\<exists>quota. expandAzureArmSchedulerJobCollectionQuota d = Inr (Some quota)) \<and>
      (\<forall>i. map_of quotaBlock ''max_recurrence_interval'' = Some (VInt i) \<and> 0 < sint i \<longrightarrow>
         quotaInterval (expandAzureArmSchedulerJobCollectionQuota d) = Some (toInt32 i)) \<and>
      (positiveInt (map_of quotaBlock ''max_recurrence_interval'') = None \<longrightarrow>
         quotaInterval (expandAzureArmSchedulerJobCollectionQuota d) =
           map_option toInt32 (positiveInt (map_of quotaBlock ''max_retry_interval''))))"
  by (auto simp: flattenAzureArmSchedulerJobCollectionQuota_def
      expandAzureArmSchedulerJobCollectionQuota_def blockEntry_def quotaInterval_def mapAssign_def
      positiveInt_def update_conv' Let_def split: option.splits)

theorem quota_shim_keeps_retry_interval_in_sync_witness:
  "flattenAzureArmSchedulerJobCollectionQuota
     (Some \<lparr>jcq_MaxJobCount = None,
            jcq_MaxRecurrence = Some \<lparr>jmr_Frequency = ''Hour'', jmr_Interval = Some 5\<rparr>\<rparr>) =
     VList [VMap [(''max_recurrence_interval'', VInt32 5), (''max_retry_interval'', VInt32 5),
                  (''max_recurrence_frequency'', VString ''Hour'')]] \<and>
   quotaInterval (expandAzureArmSchedulerJobCollectionQuota
     (dataWith [] True [(''quota'', VList [VMap [(''max_recurrence_interval'', VInt 7),
                                                (''max_retry_interval'', VInt 9)]])])) = Some 7 \<and>
   quotaInterval (expandAzureArmSchedulerJobCollectionQuota
     (dataWith [] True [(''quota'', VList [VMap [(''max_recurrence_interval'', VInt 0),
                                                (''max_retry_interval'', VInt 9)]])])) = Some 9 \<and>
   expandAzureArmSchedulerJobCollectionQuota (dataWith [] True [(''quota'', VList [])]) = Inr None"
  using quota_shim_keeps_retry_interval_in_sync
    [where q = "\<lparr>jcq_MaxJobCount = None,
            jcq_MaxRecurrence = Some \<lparr>jmr_Frequency = ''Hour'', jmr_Interval = Some 5\<rparr>\<rparr>"
       and recurrence = "\<lparr>jmr_Frequency = ''Hour'', jmr_Interval = Some 5\<rparr>" and v = 5
       and d = "dataWith [] True [(''quota'', VList [VMap [(''max_recurrence_interval'', VInt 7),
                                                (''max_retry_interval'', VInt 9)]])]"
       and quotaBlock = "[(''max_recurrence_interval'', VInt 7), (''max_retry_interval'', VInt 9)]"
       and rest = "[]"]
    quota_shim_keeps_retry_interval_in_sync
    [where d = "dataWith [] True [(''quota'', VList [VMap [(''max_recurrence_interval'', VInt 0),
                                                (''max_retry_interval'', VInt 9)]])]"
       and quotaBlock = "[(''max_recurrence_interval'', VInt 0), (''max_retry_interval'', VInt 9)]"
       and rest = "[]"]
    quota_shim_keeps_retry_interval_in_sync [where d = "dataWith [] True [(''quota'', VList [])]"]
  by (simp add: dataWith_def dGet_def flattenAzureArmSchedulerJobCollectionQuota_def mapAssign_def
      blockEntry_def positiveInt_def toInt32_def)

section \<open>The lookups are total and return the first match\<close>

lemma rangeFrontendIPConfigurations_found:
  "rangeFrontendIPConfigurations xs name k = (p, i, found) \<Longrightarrow> 0 \<le> k \<Longrightarrow>
     found = (\<exists>x \<in> set xs. feip_Name x = Some name) \<and>
     (if found
      then k \<le> i \<and> nat (i - k) < length xs \<and> p = Some (xs ! nat (i - k)) \<and>
           feip_Name (xs ! nat (i - k)) = Some name \<and>
           (\<forall>j < nat (i - k). feip_Name (xs ! j) \<noteq> Some name)
      else p = None \<and> i = - 1)"
proof (induction xs arbitrary: k)
  case Nil
  then show ?case by simp
next
  case (Cons x xs)
  show ?case
  proof (cases "feip_Name x = Some name")
    case True
    with Cons.prems show ?thesis by auto
  next
    case False
    with Cons.prems have r: "rangeFrontendIPConfigurations xs name (k + 1) = (p, i, found)"
      by simp
    from Cons.prems have k1: "0 \<le> k + 1" by simp
    note ih = Cons.IH [OF r k1]
    show ?thesis
    proof (cases found)
      case f: False
      with ih False show ?thesis by simp
    next
      case f: True
      with ih have ki: "k + 1 \<le> i" and n: "nat (i - (k + 1)) < length xs"
        and pe: "p = Some (xs ! nat (i - (k + 1)))"
        and nm: "feip_Name (xs ! nat (i - (k + 1))) = Some name"
        and fst: "\<forall>j < nat (i - (k + 1)). feip_Name (xs ! j) \<noteq> Some name"
        and ex: "\<exists>x \<in> set xs. feip_Name x = Some name"
        by simp_all
      from ki Cons.prems have suc: "nat (i - k) = Suc (nat (i - (k + 1)))" by simp
      have before: "\<forall>j < nat (i - k). feip_Name ((x # xs) ! j) \<noteq> Some name"
      proof (intro allI impI)
        fix j assume "j < nat (i - k)"
        then show "feip_Name ((x # xs) ! j) \<noteq> Some name"
          using False fst suc by (cases j) auto
      qed
      from f ex ki n pe nm before suc show ?thesis by simp
    qed
  qed
qed

lemma rangeLoadBalancingRules_found:
  "rangeLoadBalancingRules xs name k = (p, i, found) \<Longrightarrow> 0 \<le> k \<Longrightarrow>
     found = (\<exists>x \<in> set xs. lbr_Name x = Some name) \<and>
     (if found
      then k \<le> i \<and> nat (i - k) < length xs \<and> p = Some (xs ! nat (i - k)) \<and>
           lbr_Name (xs ! nat (i - k)) = Some name \<and>
           (\<forall>j < nat (i - k). lbr_Name (xs ! j) \<noteq> Some name)
      else p = None \<and> i = - 1)"
proof (induction xs arbitrary: k)
  case Nil
  then show ?case by simp
next
  case (Cons x xs)
  show ?case
  proof (cases "lbr_Name x = Some name")
    case True
    with Cons.prems show ?thesis by auto
  next
    case False
    with Cons.prems have r: "rangeLoadBalancingRules xs name (k + 1) = (p, i, found)"
      by simp
    from Cons.prems have k1: "0 \<le> k + 1" by simp
    note ih = Cons.IH [OF r k1]
    show ?thesis
    proof (cases found)
      case f: False
      with ih False show ?thesis by simp
    next
      case f: True
      with ih have ki: "k + 1 \<le> i" and n: "nat (i - (k + 1)) < length xs"
        and pe: "p = Some (xs ! nat (i - (k + 1)))"
        and nm: "lbr_Name (xs ! nat (i - (k + 1))) = Some name"
        and fst: "\<forall>j < nat (i - (k + 1)). lbr_Name (xs ! j) \<noteq> Some name"
        and ex: "\<exists>x \<in> set xs. lbr_Name x = Some name"
        by simp_all
      from ki Cons.prems have suc: "nat (i - k) = Suc (nat (i - (k + 1)))" by simp
      have before: "\<forall>j < nat (i - k). lbr_Name ((x # xs) ! j) \<noteq> Some name"
      proof (intro allI impI)
        fix j assume "j < nat (i - k)"
        then show "lbr_Name ((x # xs) ! j) \<noteq> Some name"
          using False fst suc by (cases j) auto
      qed
      from f ex ki n pe nm before suc show ?thesis by simp
    qed
  qed
qed

text \<open>
  Claim C8. For every load balancer value (nil included) and every name, both lookup
  helpers return a result (they are total functions): when the load balancer, its
  properties or the collection pointer is nil the result is \<open>(nil, -1, false)\<close>;
  otherwise found is true exactly when some element of the collection has a non-nil
  Name equal to the searched name, and then the returned index is within the bounds of
  the collection, is the position of the first such element, and the returned element
  is the one at that position; when nothing is found the result is
  \<open>(nil, -1, false)\<close>.
\<close>

theorem load_balancer_lookup_first_match:
  "(case frontendCollection lb of
      None \<Rightarrow> findLoadBalancerFrontEndIpConfigurationByName lb name = (None, - 1, False)
    | Some feips \<Rightarrow>
        firstNamed feip_Name feips name (findLoadBalancerFrontEndIpConfigurationByName lb name)) \<and>
   (case ruleCollection lb of
      None \<Rightarrow> findLoadBalancerRuleByName lb name = (None, - 1, False)
    | Some rules \<Rightarrow> firstNamed lbr_Name rules name (findLoadBalancerRuleByName lb name))"
proof -
  have a: "firstNamed feip_Name xs name (rangeFrontendIPConfigurations xs name 0)" for xs
  proof -
    obtain p i found where r: "rangeFrontendIPConfigurations xs name 0 = (p, i, found)"
      by (cases "rangeFrontendIPConfigurations xs name 0") auto
    from rangeFrontendIPConfigurations_found [OF r] show ?thesis
      by (simp add: firstNamed_def r split: if_splits)
  qed
  have b: "firstNamed lbr_Name xs name (rangeLoadBalancingRules xs name 0)" for xs
  proof -
    obtain p i found where r: "rangeLoadBalancingRules xs name 0 = (p, i, found)"
      by (cases "rangeLoadBalancingRules xs name 0") auto
    from rangeLoadBalancingRules_found [OF r] show ?thesis
      by (simp add: firstNamed_def r split: if_splits)
  qed
  show ?thesis
    using a b
    by (simp add: frontendCollection_def ruleCollection_def
        findLoadBalancerFrontEndIpConfigurationByName_def findLoadBalancerRuleByName_def
        split: option.splits)
qed

theorem load_balancer_lookup_first_match_witness:
  "findLoadBalancerRuleByName
     (Some \<lparr>lb_LoadBalancerPropertiesFormat = Some \<lparr>FrontendIPConfigurations = None,
        LoadBalancingRules = Some [\<lparr>lbr_Name = None, lbr_ID = None\<rparr>,
          \<lparr>lbr_Name = Some ''http'', lbr_ID = Some ''a''\<rparr>,
          \<lparr>lbr_Name = Some ''http'', lbr_ID = Some ''b''\<rparr>]\<rparr>\<rparr>) ''http''
     = (Some \<lparr>lbr_Name = Some ''http'', lbr_ID = Some ''a''\<rparr>, 1, True) \<and>
   findLoadBalancerFrontEndIpConfigurationByName
     (Some \<lparr>lb_LoadBalancerPropertiesFormat = Some \<lparr>FrontendIPConfigurations = None,
        LoadBalancingRules = Some [\<lparr>lbr_Name = None, lbr_ID = None\<rparr>,
          \<lparr>lbr_Name = Some ''http'', lbr_ID = Some ''a''\<rparr>,
          \<lparr>lbr_Name = Some ''http'', lbr_ID = Some ''b''\<rparr>]\<rparr>\<rparr>) ''http''
     = (None, - 1, False)"
  using load_balancer_lookup_first_match
    [of "Some \<lparr>lb_LoadBalancerPropertiesFormat = Some \<lparr>FrontendIPConfigurations = None,
        LoadBalancingRules = Some [\<lparr>lbr_Name = None, lbr_ID = None\<rparr>,
          \<lparr>lbr_Name = Some ''http'', lbr_ID = Some ''a''\<rparr>,
          \<lparr>lbr_Name = Some ''http'', lbr_ID = Some ''b''\<rparr>]\<rparr>\<rparr>" "''http''"]
  by (simp add: frontendCollection_def ruleCollection_def firstNamed_def
      findLoadBalancerRuleByName_def)

end
